theory Spec2Isabelle
  imports Main "HOL-Library.Word"
begin

section \<open>Data model\<close>

text \<open>
  The C types \<^verbatim>\<open>raft_id\<close>, \<^verbatim>\<open>raft_term\<close>, \<^verbatim>\<open>raft_index\<close> and \<^verbatim>\<open>raft_time\<close> are
  \<^verbatim>\<open>unsigned long long\<close>: 64-bit words, so \<open>+\<close> and \<open>-\<close> wrap as in the C code.
\<close>

type_synonym raft_id = "64 word"
type_synonym raft_term = "64 word"
type_synonym raft_index = "64 word"
type_synonym raft_time = "64 word"

datatype raft_state = RAFT_UNAVAILABLE | RAFT_FOLLOWER | RAFT_CANDIDATE | RAFT_LEADER

datatype raft_role = RAFT_STANDBY | RAFT_VOTER | RAFT_SPARE | RAFT_LOGGER | RAFT_UNKNOW

datatype raft_group = RAFT_GROUP_OLD | RAFT_GROUP_NEW

datatype raft_phase = RAFT_CONF_NORMAL | RAFT_CONF_JOINT

datatype entry_type = RAFT_COMMAND | RAFT_BARRIER | RAFT_CHANGE

datatype progress_state = PROGRESS__PROBE | PROGRESS__PIPELINE | PROGRESS__SNAPSHOT

text \<open>
  Return codes. \<open>RV_OK\<close> is the C value 0; the other constructors are the nonzero
  codes of the error taxonomy (their numeric values are not used by the code, only
  their being distinct and nonzero). \<open>RAFT_IOERR\<close> stands for any other nonzero code
  an I/O collaborator returns.
\<close>

datatype raft_rv =
    RV_OK | RAFT_NOMEM | RAFT_BADID | RAFT_DUPLICATEID | RAFT_NOTLEADER
  | RAFT_CANTCHANGE | RAFT_BADROLE | RAFT_NOTFOUND | RAFT_SHUTDOWN | RAFT_NOCONNECTION
  | RAFT_BUSY | RAFT_LOG_BUSY | RAFT_APPLY_BUSY | RAFT_DISCARD | RAFT_IOERR

record raft_entry =
  e_term :: raft_term
  e_type :: entry_type
  e_buf :: "8 word list"

record raft_log =
  entries :: "raft_entry list"
  offset :: raft_index
  snapshot_last_index :: raft_index
  snapshot_last_term :: raft_term

text \<open>
  A server of the configuration. The group mask of the C struct (a bit set over
  \<^verbatim>\<open>RAFT_GROUP_OLD\<close> and \<^verbatim>\<open>RAFT_GROUP_NEW\<close>) is a set of groups.
\<close>

record raft_server =
  srv_id :: raft_id
  role :: raft_role
  role_new :: raft_role
  srv_group :: "raft_group set"
  pre_role :: raft_role

record raft_configuration =
  servers :: "raft_server list"
  phase :: raft_phase

record raft_progress =
  next_index :: raft_index
  match_index :: raft_index
  snapshot_index :: raft_index
  last_send :: raft_time
  snapshot_last_send :: raft_time
  recent_recv :: bool
  recent_recv_time :: raft_time
  pstate :: progress_state

text \<open>
  A client request (\<^verbatim>\<open>struct raft_apply\<close>, \<^verbatim>\<open>raft_barrier\<close>, \<^verbatim>\<open>raft_change\<close>): the
  callback is an opaque handle, \<open>None\<close> for a NULL callback.
\<close>

record request =
  req_type :: entry_type
  req_index :: raft_index
  req_time :: raft_time
  req_cb :: "nat option"
  cb_on_match :: bool
  match_id :: raft_id

record raft_transfer =
  transfer_id :: raft_id

record follower_state_t =
  current_leader_id :: raft_id

record leader_state_t =
  progress :: "raft_progress list"
  change :: "request option"
  promotee_id :: raft_id
  promotee_role :: raft_role
  remove_id :: raft_id
  round_number :: nat
  round_index :: raft_index
  round_start :: raft_time
  removed_from_cluster :: bool
  reg :: "request list"

record raft_snapshot =
  snap_index :: raft_index
  snap_term :: raft_term
  snap_configuration :: raft_configuration
  snap_configuration_index :: raft_index

text \<open>
  The fields of an AppendEntries result that the leader's progress bookkeeping reads.
\<close>

record raft_append_entries_result =
  aer_term :: raft_term
  aer_rejected :: raft_index
  aer_last_log_index :: raft_index

text \<open>
  The round marker of the placement-group replication hook carried by every
  AppendEntries. Its constants are declared in a header that is not among the sources;
  the code tests the marker for being nonzero. \<^verbatim>\<open>PGREP_RND_NML\<close>, the marker of a
  normal request, is the zero value (the zero-initialised permit info of
  replicationProgress); the markers of the hook's own rounds are nonzero.
\<close>

datatype pgrep_round =
  PGREP_RND_NML | PGREP_RND_BGN | PGREP_RND_ING | PGREP_RND_HRT | PGREP_RND_ERR


record pgrep_permit_info =
  permit :: bool
  replicating :: pgrep_round
  pi_time :: int

text \<open>
  What the node does to the outside, in order: callbacks fired, requests handed to
  the I/O adapter and calls of the observer hooks. A callback event records the node
  state the callback observes.
\<close>

datatype event =
    EvChangeCb request raft_rv raft_state
  | EvRequestCb request raft_rv raft_state
  | EvSendRequestVoteResult raft_id raft_term bool "bool option"
  | EvSetMeta raft_term raft_id
  | EvIoTruncate raft_index
  | EvIoAppend raft_index "raft_entry list"
  | EvSnapshotPut raft_index raft_term
  | EvPgrepUpdateLctime int
  | EvPgrepResetCkposi
  | EvHookRequestAccept raft_index
  | EvHookEntryAfterAppend raft_index raft_entry
  | EvHookConfChange raft_configuration
  | EvSendAppendEntriesResult raft_id raft_append_entries_result pgrep_permit_info

record raft =
  r_id :: raft_id
  state :: raft_state
  r_role :: raft_role
  current_term :: raft_term
  voted_for :: raft_id
  log :: raft_log
  configuration :: raft_configuration
  configuration_index :: raft_index
  configuration_uncommitted_index :: raft_index
  election_timeout :: raft_time
  election_timer_start :: raft_time
  commit_index :: raft_index
  last_applied :: raft_index
  last_applying :: raft_index
  last_stored :: raft_index
  follower_state :: follower_state_t
  leader_state :: leader_state_t
  transfer :: "raft_transfer option"
  removed :: bool
  last_append_time :: int
  last_append_term :: raft_term
  snapshot_pending :: raft_snapshot
  snapshot_put_busy :: bool
  events :: "event list"

section \<open>Log and configuration\<close>

text \<open>
  Modelled from the spec: log.c is not among the sources. The log is the entry
  sequence after the snapshot cursor \<open>offset\<close>: the entry at index
  \<open>offset + k\<close> is the \<open>k\<close>-th of \<open>entries\<close> (\<section>3 Log, \<section>4.1).
  \<open>last_index()\<close> is the offset plus the number of entries.
\<close>

definition logNumEntries :: "raft_log \<Rightarrow> nat" where
  "logNumEntries l = length (entries l)"

definition logLastIndex :: "raft_log \<Rightarrow> raft_index" where
  "logLastIndex l = offset l + of_nat (length (entries l))"

definition logHolds :: "raft_log \<Rightarrow> raft_index \<Rightarrow> bool" where
  "logHolds l index \<longleftrightarrow>
     unat (offset l) < unat index \<and> unat index \<le> unat (offset l) + length (entries l)"

text \<open>
  Modelled from the spec: \<open>get(index) \<rightarrow> entry?\<close> (\<section>4.1), the entry at an index
  the log holds.
\<close>

definition logGet :: "raft_log \<Rightarrow> raft_index \<Rightarrow> raft_entry option" where
  "logGet l index =
     (if logHolds l index then Some (entries l ! (unat index - unat (offset l) - 1))
      else None)"

text \<open>
  Modelled from the spec: \<open>term_of(index) \<rightarrow> term|0\<close> (\<section>4.1): the term of the
  entry held at the index, the snapshot's term at the snapshot anchor
  \<open>{snapshot.last_index, snapshot.last_term}\<close>, and 0 where the log has nothing.
\<close>

definition logTermOf :: "raft_log \<Rightarrow> raft_index \<Rightarrow> raft_term" where
  "logTermOf l index =
     (case logGet l index of
        Some e \<Rightarrow> e_term e
      | None \<Rightarrow>
          if index \<noteq> 0 \<and> index = snapshot_last_index l then snapshot_last_term l else 0)"

text \<open>
  Modelled from the spec: \<open>truncate(from)\<close> and \<open>discard(from)\<close> (\<section>3 (L3), \<section>4.1)
  remove all entries at indices \<open>\<ge> from\<close>; they differ only in who owns the
  removed buffers.
\<close>

definition logTruncate :: "raft_log \<Rightarrow> raft_index \<Rightarrow> raft_log" where
  "logTruncate l index = l\<lparr>entries := take (unat index - unat (offset l) - 1) (entries l)\<rparr>"

definition logDiscard :: "raft_log \<Rightarrow> raft_index \<Rightarrow> raft_log" where
  "logDiscard l index = logTruncate l index"

text \<open>
  Modelled from the spec: \<open>append(term, type, payload)\<close> (\<section>4.1) adds one entry at
  \<open>last_index + 1\<close>.
\<close>

definition logAppend :: "raft_log \<Rightarrow> raft_term \<Rightarrow> entry_type \<Rightarrow> 8 word list \<Rightarrow> raft_log" where
  "logAppend l t ty buf =
     l\<lparr>entries := entries l @ [\<lparr>e_term = t, e_type = ty, e_buf = buf\<rparr>]\<rparr>"

text \<open>
  Modelled from the spec: configuration.c is not among the sources.
  \<open>index_of(id)\<close> is the position of the server with that id and the number of
  servers when there is none (test \<^verbatim>\<open>configurationIndexOf/no_match\<close>); \<open>get(id)\<close> is
  the server or NULL.
\<close>

fun indexOf :: "raft_server list \<Rightarrow> raft_id \<Rightarrow> nat" where
  "indexOf [] i = 0"
| "indexOf (s # ss) i = (if srv_id s = i then 0 else Suc (indexOf ss i))"

definition configurationIndexOf :: "raft_configuration \<Rightarrow> raft_id \<Rightarrow> nat" where
  "configurationIndexOf c i = indexOf (servers c) i"

definition configurationGet :: "raft_configuration \<Rightarrow> raft_id \<Rightarrow> raft_server option" where
  "configurationGet c i = find (\<lambda>s. srv_id s = i) (servers c)"

section \<open>state.c\<close>

text \<open>
  \<^verbatim>\<open>raft_leader\<close> writes the leader's id through its out parameter; the model returns it.
\<close>

definition raft_leader :: "raft \<Rightarrow> raft_id" where
  "raft_leader r =
     (case state r of
        RAFT_UNAVAILABLE \<Rightarrow> 0
      | RAFT_CANDIDATE \<Rightarrow> 0
      | RAFT_FOLLOWER \<Rightarrow> current_leader_id (follower_state r)
      | RAFT_LEADER \<Rightarrow> (if transfer r \<noteq> None then 0 else r_id r))"

section \<open>progress.c\<close>

text \<open>
  The progress functions work on \<^verbatim>\<open>r->leader_state.progress[i]\<close>. An assertion that
  fails, or an access outside the progress array, ends the run: the value \<open>None\<close>.
\<close>

definition progressAt :: "raft \<Rightarrow> nat \<Rightarrow> raft_progress" where
  "progressAt r i = progress (leader_state r) ! i"

definition progressSet :: "raft \<Rightarrow> nat \<Rightarrow> raft_progress \<Rightarrow> raft" where
  "progressSet r i p =
     r\<lparr>leader_state := (leader_state r)\<lparr>progress := (progress (leader_state r))[i := p]\<rparr>\<rparr>"

definition initProgress :: "raft_progress \<Rightarrow> raft_index \<Rightarrow> raft_progress" where
  "initProgress p last_index =
     p\<lparr>next_index := last_index + 1, match_index := 0, snapshot_index := 0,
       last_send := 0, snapshot_last_send := 0, recent_recv := False,
       pstate := PROGRESS__PROBE\<rparr>"

definition progressNextIndex :: "raft \<Rightarrow> nat \<Rightarrow> raft_index" where
  "progressNextIndex r i = next_index (progressAt r i)"

definition progressMatchIndex :: "raft \<Rightarrow> nat \<Rightarrow> raft_index" where
  "progressMatchIndex r i = match_index (progressAt r i)"

definition progressState :: "raft \<Rightarrow> nat \<Rightarrow> progress_state" where
  "progressState r i = pstate (progressAt r i)"

definition progressAbortSnapshot :: "raft \<Rightarrow> nat \<Rightarrow> raft" where
  "progressAbortSnapshot r i =
     progressSet r i ((progressAt r i)\<lparr>snapshot_index := 0, pstate := PROGRESS__PROBE\<rparr>)"

definition progressToProbe :: "raft \<Rightarrow> nat \<Rightarrow> raft option" where
  "progressToProbe r i =
     (let p = progressAt r i in
      if pstate p = PROGRESS__SNAPSHOT then
        (if \<not> 0 < snapshot_index p then None
         else Some (progressSet r i
                (p\<lparr>next_index := max (match_index p + 1) (snapshot_index p),
                   snapshot_index := 0, pstate := PROGRESS__PROBE\<rparr>)))
      else Some (progressSet r i
                (p\<lparr>next_index := match_index p + 1, pstate := PROGRESS__PROBE\<rparr>)))"

definition progressToPipeline :: "raft \<Rightarrow> nat \<Rightarrow> raft" where
  "progressToPipeline r i = progressSet r i ((progressAt r i)\<lparr>pstate := PROGRESS__PIPELINE\<rparr>)"

definition progressMaybeDecrement ::
  "raft \<Rightarrow> nat \<Rightarrow> raft_index \<Rightarrow> raft_index \<Rightarrow> (bool \<times> raft) option" where
  "progressMaybeDecrement r i rejected last_index =
     (if \<not> i < length (servers (configuration r)) then None
      else if \<not> i < length (progress (leader_state r)) then None
      else
        let p = progressAt r i in
        if pstate p = PROGRESS__SNAPSHOT then
          (if rejected \<noteq> snapshot_index p then Some (False, r)
           else Some (True, progressAbortSnapshot r i))
        else if pstate p = PROGRESS__PIPELINE then
          (if rejected \<le> match_index p then
             (if last_index = 1
              then Some (False, progressSet r i (initProgress p (logLastIndex (log r))))
              else Some (False, r))
           else
             (case progressToProbe
                     (progressSet r i (p\<lparr>next_index := min rejected (match_index p + 1)\<rparr>)) i of
                None \<Rightarrow> None
              | Some r' \<Rightarrow> Some (True, r')))
        else if rejected \<noteq> next_index p - 1 then Some (False, r)
        else Some (True, progressSet r i (p\<lparr>next_index := min rejected (last_index + 1)\<rparr>)))"

definition progressMaybeUpdate :: "raft \<Rightarrow> nat \<Rightarrow> raft_index \<Rightarrow> (bool \<times> raft) option" where
  "progressMaybeUpdate r i last_index =
     (if \<not> i < length (progress (leader_state r)) then None
      else
        let p = progressAt r i;
            updated = (match_index p < last_index);
            p1 = (if match_index p < last_index then p\<lparr>match_index := last_index\<rparr> else p);
            p2 = (if next_index p1 < last_index + 1 then p1\<lparr>next_index := last_index + 1\<rparr> else p1)
        in Some (updated, progressSet r i p2))"

definition progressMarkRecentRecv :: "raft \<Rightarrow> nat \<Rightarrow> raft_time \<Rightarrow> raft" where
  "progressMarkRecentRecv r i now =
     progressSet r i ((progressAt r i)\<lparr>recent_recv := True, recent_recv_time := now\<rparr>)"

definition progressSnapshotDone :: "raft \<Rightarrow> nat \<Rightarrow> bool option" where
  "progressSnapshotDone r i =
     (let p = progressAt r i in
      if pstate p \<noteq> PROGRESS__SNAPSHOT then None
      else Some (snapshot_index p \<le> match_index p))"

section \<open>replication.c: the leader's handling of an AppendEntries result\<close>

text \<open>
  The progress bookkeeping of replicationUpdate (its lines up to the quorum check):
  the peer is looked up by id, marked as recently heard from at time \<open>now\<close>, and
  the result goes to progressMaybeDecrement when it carries a rejection and to
  progressMaybeUpdate otherwise, followed by the state transition of a successful
  update. The resend on a retry, the quorum check, the apply step and the leadership
  transfer that replicationUpdate goes on to do are not part of this function.
\<close>

definition replicationUpdateProgress ::
  "raft \<Rightarrow> raft_time \<Rightarrow> raft_id \<Rightarrow> raft_append_entries_result \<Rightarrow> raft option" where
  "replicationUpdateProgress r now i_d result =
     (let i = configurationIndexOf (configuration r) i_d in
      if state r \<noteq> RAFT_LEADER then None
      else if \<not> i < length (servers (configuration r)) then None
      else if \<not> i < length (progress (leader_state r)) then None
      else
        let r0 = progressMarkRecentRecv r i now in
        if 0 < aer_rejected result then
          (case progressMaybeDecrement r0 i (aer_rejected result) (aer_last_log_index result) of
             None \<Rightarrow> None
           | Some (retry, r1) \<Rightarrow> Some r1)
        else
          let last_index = (if logLastIndex (log r0) < aer_last_log_index result
                            then logLastIndex (log r0) else aer_last_log_index result) in
          (case progressMaybeUpdate r0 i last_index of
             None \<Rightarrow> None
           | Some (updated, r1) \<Rightarrow>
               if \<not> updated then Some r1
               else
                 (case progressState r1 i of
                    PROGRESS__SNAPSHOT \<Rightarrow>
                      (case progressSnapshotDone r1 i of
                         None \<Rightarrow> None
                       | Some done \<Rightarrow> if done then progressToProbe r1 i else Some r1)
                  | PROGRESS__PROBE \<Rightarrow> Some (progressToPipeline r1 i)
                  | PROGRESS__PIPELINE \<Rightarrow> Some r1)))"

text \<open>
  A run of results from one peer, each with its arrival time, handled in the order
  given (the order of arrival, whatever the order of sending was).
\<close>

fun replicationUpdates ::
  "raft \<Rightarrow> raft_id \<Rightarrow> (raft_time \<times> raft_append_entries_result) list \<Rightarrow> raft option" where
  "replicationUpdates r i_d [] = Some r"
| "replicationUpdates r i_d ((now, result) # rest) =
     (case replicationUpdateProgress r now i_d result of
        None \<Rightarrow> None
      | Some r' \<Rightarrow> replicationUpdates r' i_d rest)"

section \<open>recv.c and recv_request_vote.c\<close>

record raft_request_vote =
  rv_term :: raft_term
  candidate_id :: raft_id
  rv_last_log_index :: raft_index
  rv_last_log_term :: raft_term
  pre_vote :: bool
  disrupt_leader :: bool

text \<open>
  What recvRequestVote calls outside the sources: the clock, the term reconciliation
  \<^verbatim>\<open>recvEnsureMatchingTerms\<close>, \<^verbatim>\<open>electionVote\<close> (election.c), \<^verbatim>\<open>recvSetMeta\<close>, the
  allocator and \<^verbatim>\<open>io->send\<close>. They are parameters of the model: each takes the node
  state and returns its return code, its outputs and the state it leaves.
\<close>

record vote_env =
  time_now :: raft_time
  ensure_matching_terms :: "raft \<Rightarrow> raft_term \<Rightarrow> raft_rv \<times> int \<times> raft"
  election_vote :: "raft \<Rightarrow> raft_request_vote \<Rightarrow> raft_rv \<times> bool \<times> raft"
  set_meta :: "raft \<Rightarrow> raft_id \<Rightarrow> raft_term \<Rightarrow> bool \<Rightarrow> raft_term \<Rightarrow> raft_id \<Rightarrow> raft_rv \<times> raft"
  malloc_ok :: bool
  send_rv :: raft_rv

definition recvCheckMatchingTerms :: "raft \<Rightarrow> raft_term \<Rightarrow> int" where
  "recvCheckMatchingTerms r t =
     (if t < current_term r then - 1 else if current_term r < t then 1 else 0)"

text \<open>
  The tail of recvRequestVote from its \<^verbatim>\<open>reply:\<close> label (and the same lines at the end
  of the RAFT_ASYNC_ALL variant): allocate the send request and hand the
  RequestVoteResult to \<^verbatim>\<open>io->send\<close>. \<open>pv\<close> is the result's pre_vote field, \<open>None\<close> where
  the variant does not set it.
\<close>

definition requestVoteReply ::
  "vote_env \<Rightarrow> raft \<Rightarrow> raft_id \<Rightarrow> raft_term \<Rightarrow> bool \<Rightarrow> bool option \<Rightarrow> (raft_rv \<times> raft) option" where
  "requestVoteReply env r i_d t granted pv =
     (if \<not> malloc_ok env then Some (RAFT_NOMEM, r)
      else Some (send_rv env,
                 r\<lparr>events := events r @ [EvSendRequestVoteResult i_d t granted pv]\<rparr>))"

text \<open>
  recvRequestVote as compiled without RAFT_ASYNC_ALL. \<open>requestVoteProcess\<close> is what
  follows the leader check: term reconciliation, then electionVote, then the reply.
\<close>

definition requestVoteProcess ::
  "vote_env \<Rightarrow> raft \<Rightarrow> raft_id \<Rightarrow> raft_request_vote \<Rightarrow> (raft_rv \<times> raft) option" where
  "requestVoteProcess env r i_d args =
     (let (rv, match, r1) =
            (if pre_vote args then (RV_OK, recvCheckMatchingTerms r (rv_term args), r)
             else ensure_matching_terms env r (rv_term args))
      in
      if rv \<noteq> RV_OK then Some (rv, r1)
      else if match < 0 then requestVoteReply env r1 i_d (current_term r1) False None
      else if \<not> pre_vote args \<and> current_term r1 \<noteq> rv_term args then None
      else
        let (rv2, granted, r2) = election_vote env r1 args in
        if rv2 \<noteq> RV_OK then Some (rv2, r2)
        else requestVoteReply env r2 i_d (current_term r2) granted None)"

definition recvRequestVote ::
  "vote_env \<Rightarrow> raft \<Rightarrow> raft_id \<Rightarrow> raft_request_vote \<Rightarrow> (raft_rv \<times> raft) option" where
  "recvRequestVote env r i_d args =
     (if \<not> 0 < i_d then None
      else
        let has_leader =
              (state r = RAFT_LEADER \<or>
               (state r = RAFT_FOLLOWER \<and> current_leader_id (follower_state r) \<noteq> 0 \<and>
                time_now env - election_timer_start r \<le> election_timeout r))
        in
        if has_leader \<and> \<not> disrupt_leader args
        then requestVoteReply env r i_d (current_term r) False None
        else requestVoteProcess env r i_d args)"

text \<open>
  recvRequestVote as compiled with RAFT_ASYNC_ALL: the vote is persisted through
  \<^verbatim>\<open>recvSetMeta\<close>, whose completion sends the reply; the return code of electionVote is
  not read.
\<close>

definition requestVoteProcessAsync ::
  "vote_env \<Rightarrow> raft \<Rightarrow> raft_id \<Rightarrow> raft_request_vote \<Rightarrow> (raft_rv \<times> raft) option" where
  "requestVoteProcessAsync env r i_d args =
     (let match = recvCheckMatchingTerms r (rv_term args) in
      if 0 \<le> match then
        (let (rv, granted, r1) = election_vote env r args in
         if \<not> pre_vote args then
           (let voted_for1 = (if 0 < match then 0 else voted_for r);
                t = (if 0 < match then rv_term args else current_term r);
                voted_for2 = (if granted then candidate_id args else voted_for1);
                r2 = (if granted then r1\<lparr>election_timer_start := time_now env\<rparr> else r1)
            in
            if 0 < match \<or> voted_for r2 \<noteq> voted_for2
            then Some (set_meta env r2 i_d t granted (rv_term args) voted_for2)
            else requestVoteReply env r2 i_d t granted (Some (pre_vote args)))
         else requestVoteReply env r1 i_d (current_term r) granted (Some (pre_vote args)))
      else requestVoteReply env r i_d (current_term r) False (Some (pre_vote args)))"

definition recvRequestVoteAsync ::
  "vote_env \<Rightarrow> raft \<Rightarrow> raft_id \<Rightarrow> raft_request_vote \<Rightarrow> (raft_rv \<times> raft) option" where
  "recvRequestVoteAsync env r i_d args =
     (if \<not> 0 < i_d then None
      else
        let has_leader =
              (state r = RAFT_LEADER \<or>
               (state r = RAFT_FOLLOWER \<and> current_leader_id (follower_state r) \<noteq> 0))
        in
        if has_leader \<and> \<not> disrupt_leader args
        then requestVoteReply env r i_d (current_term r) False (Some (pre_vote args))
        else requestVoteProcessAsync env r i_d args)"

section \<open>replication.c: quorum commit and applying a configuration change\<close>

text \<open>
  The loop of replicationQuorum over \<^verbatim>\<open>r->configuration.servers[i]\<close> and
  \<^verbatim>\<open>r->leader_state.progress[i]\<close>, from position \<open>i\<close> on: the two arrays are walked
  in step. A server that is not a VOTER is skipped without reading its progress entry;
  reading a progress entry the array does not have ends the run.
\<close>

fun quorumVotes :: "raft_server list \<Rightarrow> raft_progress list \<Rightarrow> raft_index \<Rightarrow> nat option" where
  "quorumVotes [] ps index = Some 0"
| "quorumVotes (server # ss) ps index =
     (if role server \<noteq> RAFT_VOTER then quorumVotes ss (tl ps) index
      else
        (case ps of
           [] \<Rightarrow> None
         | p # ps' \<Rightarrow>
             (case quorumVotes ss ps' index of
                None \<Rightarrow> None
              | Some votes \<Rightarrow> Some (if index \<le> match_index p then votes + 1 else votes))))"

text \<open>
  replicationQuorum. \<^verbatim>\<open>configurationVoterCount\<close> is defined in configuration.c, which is
  not among the sources; the call here passes the configuration alone, while the spec
  (\<section>4.2, \<open>voter_count(group)\<close>) and the unit tests give the function a group. Which
  servers it counts is therefore left open: the function is the parameter
  \<open>voter_count\<close>. \<open>None\<close> is a failed assertion or a read outside the progress
  array.
\<close>

definition replicationQuorum ::
  "(raft_configuration \<Rightarrow> nat) \<Rightarrow> raft \<Rightarrow> raft_index \<Rightarrow> raft option" where
  "replicationQuorum voter_count r index =
     (if state r \<noteq> RAFT_LEADER then None
      else if index \<le> commit_index r then Some r
      else if logTermOf (log r) index = 0 then Some r
      else if \<not> logTermOf (log r) index \<le> current_term r then None
      else
        (case quorumVotes (servers (configuration r)) (progress (leader_state r)) index of
           None \<Rightarrow> None
         | Some votes \<Rightarrow>
             if voter_count (configuration r) div 2 < votes
             then Some (r\<lparr>commit_index := min index (last_stored r)\<rparr>)
             else Some r))"

text \<open>
  The votes replicationQuorum counts when the progress array covers the configuration:
  the servers whose role is VOTER and whose \<open>match_index\<close> has reached the index.
\<close>

definition votesFor :: "raft_server list \<Rightarrow> raft_progress list \<Rightarrow> raft_index \<Rightarrow> nat" where
  "votesFor ss ps index =
     length (filter (\<lambda>(s, p). role s = RAFT_VOTER \<and> index \<le> match_index p) (zip ss ps))"

text \<open>
  The spec's commit rule, in the spec's words (\<section>4.6, \<section>8): a server is a VOTER of
  the OLD group by its \<open>role\<close> and of the NEW group by its \<open>role_new\<close>, when its group
  mask holds the group; a group has a quorum at \<open>N\<close> when a strict majority of its
  VOTERs has \<open>match_index \<ge> N\<close>.
\<close>

definition spec_isVoter :: "raft_group \<Rightarrow> raft_server \<Rightarrow> bool" where
  "spec_isVoter g s \<longleftrightarrow>
     g \<in> srv_group s \<and> (case g of RAFT_GROUP_OLD \<Rightarrow> role s | RAFT_GROUP_NEW \<Rightarrow> role_new s) = RAFT_VOTER"

definition spec_groupQuorum :: "raft \<Rightarrow> raft_group \<Rightarrow> raft_index \<Rightarrow> bool" where
  "spec_groupQuorum r g N \<longleftrightarrow>
     (let sp = zip (servers (configuration r)) (progress (leader_state r)) in
      length (filter (\<lambda>(s, p). spec_isVoter g s) sp)
        < 2 * length (filter (\<lambda>(s, p). spec_isVoter g s \<and> N \<le> match_index p) sp))"

text \<open>
  Modelled from the spec: convert.c is not among the sources. \<section>4.11, conversion to
  FOLLOWER: reset the candidate/leader substructs and clear \<open>transfer\<close>; \<section>4.10: on
  leader step-down the requests still in the registry are failed (their callbacks are
  events of kind \<open>EvRequestCb\<close> with NOTLEADER).
\<close>

definition leader_state_reset :: leader_state_t where
  "leader_state_reset =
     \<lparr>progress = [], change = None, promotee_id = 0, promotee_role = RAFT_UNKNOW,
      remove_id = 0, round_number = 0, round_index = 0, round_start = 0,
      removed_from_cluster = False, reg = []\<rparr>"

definition convertToFollower :: "raft \<Rightarrow> raft" where
  "convertToFollower r =
     r\<lparr>state := RAFT_FOLLOWER,
       follower_state := \<lparr>current_leader_id = 0\<rparr>,
       leader_state := leader_state_reset,
       transfer := None,
       events := events r @
         map (\<lambda>q. EvRequestCb q RAFT_NOTLEADER RAFT_FOLLOWER) (reg (leader_state r))\<rparr>"

definition applyChange :: "raft \<Rightarrow> raft_index \<Rightarrow> raft option" where
  "applyChange r index =
     (if \<not> 0 < index then None
      else
        let r1 = (if configuration_uncommitted_index r = index
                  then r\<lparr>configuration_uncommitted_index := 0\<rparr> else r);
            r2 = r1\<lparr>configuration_index := index\<rparr>
        in
        if state r2 = RAFT_LEADER then
          (let req = change (leader_state r2);
               r3 = r2\<lparr>leader_state := (leader_state r2)\<lparr>change := None\<rparr>\<rparr>;
               r4 = (if configurationGet (configuration r3) (r_id r3) = None
                     then (convertToFollower r3)\<lparr>removed := True\<rparr> else r3)
           in
           (case req of
              None \<Rightarrow> Some r4
            | Some q \<Rightarrow>
                if req_cb q \<noteq> None
                then Some (r4\<lparr>events := events r4 @ [EvChangeCb q RV_OK (state r4)]\<rparr>)
                else Some r4))
        else
          (if configurationGet (configuration r2) (r_id r2) = None
           then Some (r2\<lparr>removed := True\<rparr>) else Some r2))"

section \<open>replication.c: the follower's handling of AppendEntries\<close>
















text \<open>
  Modelled from the spec: \<open>acquire(range) \<rightarrow> refcounted view\<close> (\<section>4.1), the entries
  of the log from an index to its end.
\<close>

definition logAcquire :: "raft_log \<Rightarrow> raft_index \<Rightarrow> raft_entry list" where
  "logAcquire l index = drop (unat index - unat (offset l) - 1) (entries l)"


section \<open>replication.c: the completion of a follower's disk write\<close>







section \<open>client.c\<close>

text \<open>
  What the client operations take from outside the sources at hand: the clock, the
  results of allocations and of the I/O adapter, and the code of membership.c and
  configuration.c that the spec describes only by name.
  \<^item> \<open>cl_time\<close>: \<^verbatim>\<open>r->io->time(r->io)\<close>;
  \<^item> \<open>cl_log_append_rv\<close>: the result of \<^verbatim>\<open>logAppend\<close>, \<^verbatim>\<open>logAppendCommands\<close> and
    \<^verbatim>\<open>logAppendConfiguration\<close> (nonzero when an allocation fails);
  \<^item> \<open>cl_encode\<close>: the encoding of a configuration into an entry's payload;
  \<^item> \<open>reg_enqueue_rv\<close>: the result of \<^verbatim>\<open>requestRegEnqueue\<close>;
  \<^item> \<open>cl_log_acquire_rv\<close>, \<open>cl_request_malloc_ok\<close>, \<open>cl_io_append_rv\<close>: the results of
    \<^verbatim>\<open>logAcquire\<close>, \<^verbatim>\<open>raft_malloc\<close> and \<^verbatim>\<open>io->append\<close> in appendLeader;
  \<^item> \<open>replication_progress\<close>: \<^verbatim>\<open>replicationProgress(r, i)\<close>, which sends one
    AppendEntries or snapshot to server \<open>i\<close>;
  \<^item> \<open>progress_malloc_ok\<close>, \<open>fresh_progress\<close>: whether the allocation in
    progressRebuildArray succeeds, and the contents of the fresh memory;
  \<^item> \<open>can_change\<close>: the verdict of \<^verbatim>\<open>membershipCanChangeConfiguration(r, allow_joint)\<close>,
    a check that reads the node (\<section>4.9), 0 when the change may go ahead;
  \<^item> \<open>cl_configuration_copy_rv\<close>, \<open>configuration_add_malloc_ok\<close>,
    \<open>configuration_remove_malloc_ok\<close>: the allocations of \<^verbatim>\<open>configurationCopy\<close>,
    \<^verbatim>\<open>raft_configuration_add\<close> and \<^verbatim>\<open>configurationRemove\<close>;
  \<^item> \<open>joint_to_normal\<close>: \<^verbatim>\<open>configurationJointToNormal(src, dst, group)\<close>, the result code
    and the configuration written to \<^verbatim>\<open>dst\<close>.
\<close>

record client_env =
  cl_time :: raft_time
  cl_log_append_rv :: raft_rv
  cl_encode :: "raft_configuration \<Rightarrow> 8 word list"
  reg_enqueue_rv :: raft_rv
  cl_log_acquire_rv :: raft_rv
  cl_request_malloc_ok :: bool
  cl_io_append_rv :: raft_rv
  replication_progress :: "raft \<Rightarrow> nat \<Rightarrow> raft_rv \<times> raft"
  progress_malloc_ok :: bool
  fresh_progress :: raft_progress
  can_change :: "raft \<Rightarrow> bool \<Rightarrow> raft_rv"
  cl_configuration_copy_rv :: raft_rv
  configuration_add_malloc_ok :: bool
  configuration_remove_malloc_ok :: bool
  joint_to_normal :: "raft_configuration \<Rightarrow> raft_group \<Rightarrow> raft_rv \<times> raft_configuration"

text \<open>
  Modelled from the spec: \<open>append_commands(term, payloads[])\<close> and
  \<open>append_configuration(conf)\<close> (\<section>4.1) add one COMMAND entry per payload, or one
  CHANGE entry holding the encoded configuration, after the last entry.
\<close>

definition logAppendCommands :: "raft_log \<Rightarrow> raft_term \<Rightarrow> 8 word list list \<Rightarrow> raft_log" where
  "logAppendCommands l t bufs =
     l\<lparr>entries := entries l @ map (\<lambda>b. \<lparr>e_term = t, e_type = RAFT_COMMAND, e_buf = b\<rparr>) bufs\<rparr>"

definition logAppendConfiguration ::
  "client_env \<Rightarrow> raft_log \<Rightarrow> raft_term \<Rightarrow> raft_configuration \<Rightarrow> raft_log" where
  "logAppendConfiguration env l t c = logAppend l t RAFT_CHANGE (cl_encode env c)"

text \<open>
  Modelled from the spec: the request registry (\<section>4.10) is the list of outstanding
  requests; \<open>enqueue(req)\<close> adds one at the end, \<open>remove_at(index)\<close> takes out the
  request of that log index.
\<close>

definition requestRegEnqueue :: "request list \<Rightarrow> request \<Rightarrow> request list" where
  "requestRegEnqueue rg q = rg @ [q]"

definition requestRegDel :: "request list \<Rightarrow> raft_index \<Rightarrow> request list" where
  "requestRegDel rg index = filter (\<lambda>q. req_index q \<noteq> index) rg"

text \<open>
  Modelled from the spec: \<open>server_role(id)\<close> (\<section>4.2) is the role of the server with
  that id. \<^verbatim>\<open>raft_configuration_add\<close> appends a server with the given role, the same
  new role and the group OLD, and fails with DUPLICATEID when the id is in use and with
  NOMEM when the allocation fails; \<^verbatim>\<open>configurationRemove\<close> takes the server out and
  fails with BADID when there is none and with NOMEM when the allocation fails (tests
  \<^verbatim>\<open>configurationAdd\<close> and \<^verbatim>\<open>configurationRemove\<close>). A failed call leaves the
  configuration as it was.
\<close>

definition configurationServerRole :: "raft_configuration \<Rightarrow> raft_id \<Rightarrow> raft_role" where
  "configurationServerRole c i =
     (case configurationGet c i of Some s \<Rightarrow> role s | None \<Rightarrow> RAFT_UNKNOW)"

definition raft_configuration_add ::
  "client_env \<Rightarrow> raft_configuration \<Rightarrow> raft_id \<Rightarrow> raft_role \<Rightarrow> raft_rv \<times> raft_configuration" where
  "raft_configuration_add env c i ro =
     (if ro = RAFT_UNKNOW then (RAFT_BADROLE, c)
      else if configurationGet c i \<noteq> None then (RAFT_DUPLICATEID, c)
      else if \<not> configuration_add_malloc_ok env then (RAFT_NOMEM, c)
      else (RV_OK,
            c\<lparr>servers := servers c @
                 [\<lparr>srv_id = i, role = ro, role_new = ro, srv_group = {RAFT_GROUP_OLD},
                   pre_role = RAFT_UNKNOW\<rparr>]\<rparr>))"

definition configurationRemove ::
  "client_env \<Rightarrow> raft_configuration \<Rightarrow> raft_id \<Rightarrow> raft_rv \<times> raft_configuration" where
  "configurationRemove env c i =
     (if configurationGet c i = None then (RAFT_BADID, c)
      else if \<not> configuration_remove_malloc_ok env then (RAFT_NOMEM, c)
      else (RV_OK, c\<lparr>servers := filter (\<lambda>s. srv_id s \<noteq> i) (servers c)\<rparr>))"

text \<open>
  progressRebuildArray (progress.c). The new array is fresh memory; the first loop
  copies, for every server of the current configuration that the new one lists, its
  progress to its new position; the second loop initialises the servers that only the
  new configuration lists. \<open>None\<close> is a read outside the current progress array.
  When the allocation fails nothing has been written.
\<close>

definition progressRebuildArray ::
  "client_env \<Rightarrow> raft \<Rightarrow> raft_configuration \<Rightarrow> (raft_rv \<times> raft) option" where
  "progressRebuildArray env r c =
     (let last_index = logLastIndex (log r);
          old = servers (configuration r);
          new = servers c
      in
      if \<not> progress_malloc_ok env then Some (RAFT_NOMEM, r)
      else if length (progress (leader_state r)) < length old then None
      else
        let p0 = replicate (length new) (fresh_progress env);
            p1 = foldl (\<lambda>p i.
                    let j = indexOf new (srv_id (old ! i)) in
                    if j = length new then p else p[j := progress (leader_state r) ! i])
                  p0 [0..<length old];
            p2 = foldl (\<lambda>p i.
                    let j = indexOf old (srv_id (new ! i)) in
                    if j < length old then p
                    else p[i := (initProgress (p ! i) last_index)
                                  \<lparr>recent_recv_time := cl_time env\<rparr>])
                  p1 [0..<length new]
        in Some (RV_OK, r\<lparr>leader_state := (leader_state r)\<lparr>progress := p2\<rparr>\<rparr>))"

section \<open>replication.c: triggering replication at the leader\<close>

text \<open>
  triggerAll: one pass over the servers, skipping the node itself and the SPARE servers
  that are not being promoted; the result of replicationProgress is only logged.
  replicationProgress does not change the configuration, so the pass runs over the
  servers listed at entry.
\<close>

definition triggerAllStep :: "client_env \<Rightarrow> raft \<Rightarrow> nat \<Rightarrow> raft" where
  "triggerAllStep env r i =
     (if \<not> i < length (servers (configuration r)) then r
      else
        let server = servers (configuration r) ! i in
        if srv_id server = r_id r then r
        else if role server = RAFT_SPARE \<and> srv_id server \<noteq> promotee_id (leader_state r) then r
        else snd (replication_progress env r i))"

definition triggerAll :: "client_env \<Rightarrow> raft \<Rightarrow> (raft_rv \<times> raft) option" where
  "triggerAll env r =
     (if state r \<noteq> RAFT_LEADER then None
      else Some (RV_OK, foldl (triggerAllStep env) r [0..<length (servers (configuration r))]))"

text \<open>
  appendLeader submits the disk write of all entries from \<open>index\<close> on. The write handed
  to \<^verbatim>\<open>io->append\<close> is an event; every failure returns with the log, the registry and
  the configuration as they were.
\<close>

definition appendLeader :: "client_env \<Rightarrow> raft \<Rightarrow> raft_index \<Rightarrow> (raft_rv \<times> raft) option" where
  "appendLeader env r index =
     (if state r \<noteq> RAFT_LEADER \<or> \<not> 0 < index \<or> \<not> last_stored r < index then None
      else if cl_log_acquire_rv env \<noteq> RV_OK then Some (cl_log_acquire_rv env, r)
      else
        let es = logAcquire (log r) index in
        if es = [] then None
        else if \<not> cl_request_malloc_ok env then Some (RAFT_NOMEM, r)
        else
          let r1 = r\<lparr>events := events r @ [EvIoAppend index es]\<rparr> in
          if cl_io_append_rv env \<noteq> RV_OK then Some (cl_io_append_rv env, r1)
          else Some (RV_OK, r1))"

definition replicationTrigger :: "client_env \<Rightarrow> raft \<Rightarrow> raft_index \<Rightarrow> (raft_rv \<times> raft) option" where
  "replicationTrigger env r index =
     (case appendLeader env r index of
        None \<Rightarrow> None
      | Some (rv, r1) \<Rightarrow> if rv \<noteq> RV_OK then Some (rv, r1) else triggerAll env r1)"

section \<open>client.c: the client operations\<close>

text \<open>
  A client operation returns its return code, the request object as the call leaves it
  (the caller owns it; the operation writes its fields) and the node; \<open>None\<close> is a
  failed assertion. The buffers of raft_apply are a list, \<^verbatim>\<open>n\<close> its length.
\<close>

definition hookEntries :: "raft_log \<Rightarrow> raft_index \<Rightarrow> nat \<Rightarrow> event list" where
  "hookEntries l index n =
     List.map_filter
       (\<lambda>i. map_option (EvHookEntryAfterAppend (index + of_nat i)) (logGet l (index + of_nat i)))
       [0..<n]"

definition raft_apply ::
  "client_env \<Rightarrow> raft \<Rightarrow> request \<Rightarrow> 8 word list list \<Rightarrow> nat option \<Rightarrow>
   (raft_rv \<times> request \<times> raft) option" where
  "raft_apply env r req bufs cb =
     (if bufs = [] then None
      else if state r \<noteq> RAFT_LEADER \<or> transfer r \<noteq> None \<or>
              removed_from_cluster (leader_state r)
      then Some (RAFT_NOTLEADER, req, r)
      else
        let index = logLastIndex (log r) + 1;
            req1 = req\<lparr>req_time := cl_time env, req_type := RAFT_COMMAND,
                       req_index := index, req_cb := cb\<rparr>
        in
        if cl_log_append_rv env \<noteq> RV_OK then Some (cl_log_append_rv env, req1, r)
        else
          let r1 = r\<lparr>log := logAppendCommands (log r) (current_term r) bufs\<rparr> in
          if reg_enqueue_rv env \<noteq> RV_OK
          then Some (reg_enqueue_rv env, req1, r1\<lparr>log := logDiscard (log r1) index\<rparr>)
          else
            let r2 = r1\<lparr>leader_state := (leader_state r1)
                          \<lparr>reg := requestRegEnqueue (reg (leader_state r1)) req1\<rparr>,
                        events := events r1 @ [EvHookRequestAccept index]\<rparr>
            in
            if \<not> list_all
                    (\<lambda>i. case logGet (log r2) (index + of_nat i) of
                            None \<Rightarrow> False
                          | Some entry \<Rightarrow> e_type entry = RAFT_COMMAND)
                    [0..<length bufs]
            then None
            else
              let r3 = r2\<lparr>events := events r2 @ hookEntries (log r2) index (length bufs)\<rparr> in
              (case replicationTrigger env r3 index of
                 None \<Rightarrow> None
               | Some (rv, r4) \<Rightarrow>
                   if rv \<noteq> RV_OK then
                     (let r5 = r4\<lparr>leader_state := (leader_state r4)
                                   \<lparr>reg := requestRegDel (reg (leader_state r4)) index\<rparr>\<rparr>
                      in Some (rv, req1, r5\<lparr>log := logDiscard (log r5) index\<rparr>))
                   else Some (RV_OK, req1, r4)))"

definition raft_barrier ::
  "client_env \<Rightarrow> raft \<Rightarrow> request \<Rightarrow> nat option \<Rightarrow> (raft_rv \<times> request \<times> raft) option" where
  "raft_barrier env r req cb =
     (if state r \<noteq> RAFT_LEADER \<or> transfer r \<noteq> None then Some (RAFT_NOTLEADER, req, r)
      else
        let index = logLastIndex (log r) + 1;
            req1 = req\<lparr>req_time := cl_time env, req_type := RAFT_BARRIER,
                       req_index := index, req_cb := cb\<rparr>
        in
        if cl_log_append_rv env \<noteq> RV_OK then Some (cl_log_append_rv env, req1, r)
        else
          let r1 = r\<lparr>log := logAppend (log r) (current_term r) RAFT_BARRIER []\<rparr> in
          if reg_enqueue_rv env \<noteq> RV_OK
          then Some (reg_enqueue_rv env, req1, r1\<lparr>log := logDiscard (log r1) index\<rparr>)
          else
            let r2 = r1\<lparr>leader_state := (leader_state r1)
                          \<lparr>reg := requestRegEnqueue (reg (leader_state r1)) req1\<rparr>,
                        events := events r1 @ [EvHookRequestAccept index]\<rparr>
            in
            (case logGet (log r2) index of
               None \<Rightarrow> None
             | Some entry \<Rightarrow>
                 if e_type entry \<noteq> RAFT_BARRIER then None
                 else
                   let r3 = r2\<lparr>events := events r2 @ [EvHookEntryAfterAppend index entry]\<rparr> in
                   (case replicationTrigger env r3 index of
                      None \<Rightarrow> None
                    | Some (rv, r4) \<Rightarrow>
                        if rv \<noteq> RV_OK then
                          (let r5 = r4\<lparr>leader_state := (leader_state r4)
                                        \<lparr>reg := requestRegDel (reg (leader_state r4)) index\<rparr>\<rparr>
                           in Some (rv, req1, r5\<lparr>log := logDiscard (log r5) index\<rparr>))
                        else Some (RV_OK, req1, r4))))"

text \<open>
  The configuration argument of clientChangeConfiguration is a pointer, which the
  function compares with \<^verbatim>\<open>&r->configuration\<close>: raft_assign passes the node's own
  configuration, already changed in place; raft_add and raft_remove pass a changed
  copy.
\<close>

datatype conf_arg = OwnConfiguration | NewConfiguration raft_configuration

text \<open>
  clientChangeConfiguration. \<open>registered\<close> tells whether \<^verbatim>\<open>r->leader_state.change\<close>
  already points to the request (raft_assign stores the pointer before the call), so
  that the write of \<^verbatim>\<open>req->index\<close> shows there too. The failure of progressRebuildArray
  leaves through the label \<^verbatim>\<open>err\<close>, the failure of replicationTrigger through
  \<^verbatim>\<open>err_after_log_append\<close>, which truncates the log from \<open>index\<close>.
\<close>

definition clientChangeConfiguration ::
  "client_env \<Rightarrow> raft \<Rightarrow> request \<Rightarrow> bool \<Rightarrow> conf_arg \<Rightarrow> (raft_rv \<times> request \<times> raft) option" where
  "clientChangeConfiguration env r req registered arg =
     (let index = logLastIndex (log r) + 1;
          term = current_term r;
          c = (case arg of OwnConfiguration \<Rightarrow> configuration r | NewConfiguration c' \<Rightarrow> c')
      in
      if cl_log_append_rv env \<noteq> RV_OK then Some (cl_log_append_rv env, req, r)
      else
        let req1 = req\<lparr>req_index := index\<rparr>;
            r1 = r\<lparr>log := logAppendConfiguration env (log r) term c,
                   leader_state :=
                     (if registered then (leader_state r)\<lparr>change := Some req1\<rparr>
                      else leader_state r)\<rparr>
        in
        (case logGet (log r1) index of
           None \<Rightarrow> None
         | Some entry \<Rightarrow>
             if e_type entry \<noteq> RAFT_CHANGE then None
             else
               let r2 = r1\<lparr>events := events r1 @
                             [EvHookEntryAfterAppend index entry, EvHookConfChange c]\<rparr>
               in
               (case progressRebuildArray env r2 c of
                  None \<Rightarrow> None
                | Some (rv, r3) \<Rightarrow>
                    if rv \<noteq> RV_OK then Some (rv, req1, r3)
                    else
                      let r4 = (case arg of
                                  OwnConfiguration \<Rightarrow> r3
                                | NewConfiguration c' \<Rightarrow>
                                    r3\<lparr>configuration := c',
                                       r_role :=
                                         (if configurationIndexOf c' (r_id r3) \<noteq>
                                               length (servers c')
                                          then configurationServerRole c' (r_id r3)
                                          else RAFT_STANDBY)\<rparr>)
                      in
                      (case replicationTrigger env r4 index of
                         None \<Rightarrow> None
                       | Some (rv, r5) \<Rightarrow>
                           if rv \<noteq> RV_OK
                           then Some (rv, req1, r5\<lparr>log := logTruncate (log r5) index\<rparr>)
                           else
                             let r6 = r5\<lparr>configuration_uncommitted_index := index\<rparr>;
                                 server_index = configurationIndexOf (configuration r6) (r_id r6)
                             in
                             if state r6 = RAFT_LEADER \<and>
                                server_index = length (servers (configuration r6))
                             then Some (RV_OK, req1,
                                        r6\<lparr>leader_state := (leader_state r6)
                                             \<lparr>removed_from_cluster := True\<rparr>\<rparr>)
                             else Some (RV_OK, req1, r6)))))"

text \<open>
  raft_add. On the error path \<^verbatim>\<open>raft_configuration_close\<close> releases the local copy;
  the configuration is a value here.
\<close>

definition raft_add ::
  "client_env \<Rightarrow> raft \<Rightarrow> request \<Rightarrow> raft_id \<Rightarrow> nat option \<Rightarrow>
   (raft_rv \<times> request \<times> raft) option" where
  "raft_add env r req i cb =
     (let req0 = req\<lparr>cb_on_match := False, match_id := 0\<rparr> in
      if can_change env r False \<noteq> RV_OK then Some (can_change env r False, req0, r)
      else if cl_configuration_copy_rv env \<noteq> RV_OK
      then Some (cl_configuration_copy_rv env, req0, r)
      else
        (case raft_configuration_add env (configuration r) i RAFT_SPARE of
           (rv, c) \<Rightarrow>
             if rv \<noteq> RV_OK then Some (rv, req0, r)
             else
               let req1 = req0\<lparr>req_cb := cb, req_time := cl_time env\<rparr> in
               (case clientChangeConfiguration env r req1 False (NewConfiguration c) of
                  None \<Rightarrow> None
                | Some (rv1, req2, r1) \<Rightarrow>
                    if rv1 \<noteq> RV_OK then Some (rv1, req2, r1)
                    else if change (leader_state r1) \<noteq> None then None
                    else Some (RV_OK, req2,
                               r1\<lparr>leader_state := (leader_state r1)\<lparr>change := Some req2\<rparr>\<rparr>))))"

text \<open>
  raft_assign. The role is an \<^verbatim>\<open>int\<close> in C; \<open>RAFT_UNKNOW\<close> stands for every value
  that is none of STANDBY, VOTER, SPARE and LOGGER. The request is stored in
  \<^verbatim>\<open>r->leader_state.change\<close> before the change is submitted, and no error path takes it
  out again.
\<close>

definition raft_assign ::
  "client_env \<Rightarrow> raft \<Rightarrow> request \<Rightarrow> raft_id \<Rightarrow> raft_role \<Rightarrow> nat option \<Rightarrow>
   (raft_rv \<times> request \<times> raft) option" where
  "raft_assign env r req i ro cb =
     (if ro \<noteq> RAFT_STANDBY \<and> ro \<noteq> RAFT_VOTER \<and> ro \<noteq> RAFT_SPARE \<and> ro \<noteq> RAFT_LOGGER
      then Some (RAFT_BADROLE, req, r)
      else if can_change env r False \<noteq> RV_OK then Some (can_change env r False, req, r)
      else
        (case configurationGet (configuration r) i of
           None \<Rightarrow> Some (RAFT_NOTFOUND, req, r)
         | Some server \<Rightarrow>
             if role server = ro then Some (RAFT_BADROLE, req, r)
             else
               let server_index = configurationIndexOf (configuration r) i;
                   last_index = logLastIndex (log r);
                   req1 = req\<lparr>req_cb := cb, req_time := cl_time env\<rparr>
               in
               if \<not> server_index < length (servers (configuration r)) then None
               else if change (leader_state r) \<noteq> None then None
               else
                 let r1 = r\<lparr>leader_state := (leader_state r)\<lparr>change := Some req1\<rparr>\<rparr> in
                 if (ro = RAFT_VOTER \<or> ro = RAFT_LOGGER) \<and>
                    \<not> server_index < length (progress (leader_state r1))
                 then None
                 else if (ro \<noteq> RAFT_VOTER \<and> ro \<noteq> RAFT_LOGGER) \<or>
                         progressMatchIndex r1 server_index = last_index
                 then
                   (let old_role = role (servers (configuration r1) ! server_index);
                        r2 = r1\<lparr>configuration := (configuration r1)
                               \<lparr>servers := (servers (configuration r1))
                                  [server_index :=
                                     (servers (configuration r1) ! server_index)
                                       \<lparr>role := ro\<rparr>]\<rparr>\<rparr>
                    in
                    (case clientChangeConfiguration env r2 req1 True OwnConfiguration of
                       None \<Rightarrow> None
                     | Some (rv, req2, r3) \<Rightarrow>
                         if rv \<noteq> RV_OK then
                           Some (rv, req2,
                                 r3\<lparr>configuration := (configuration r3)
                                    \<lparr>servers := (servers (configuration r3))
                                       [server_index :=
                                          (servers (configuration r3) ! server_index)
                                            \<lparr>role := old_role\<rparr>]\<rparr>\<rparr>)
                         else Some (RV_OK, req2, r3)))
                 else if remove_id (leader_state r1) \<noteq> 0 then None
                 else
                   let r2 = r1\<lparr>leader_state := (leader_state r1)
                                 \<lparr>promotee_id := srv_id server, promotee_role := ro,
                                  round_number := 1, round_index := last_index,
                                  round_start := cl_time env\<rparr>\<rparr>
                   in Some (RV_OK, req1, snd (replication_progress env r2 server_index))))"

text \<open>
  raft_remove. In the JOINT phase copyJointRemoveConfiguration collapses the
  configuration to the group that does not hold the server (the OLD group when the
  server is in NEW, else the NEW group), and the result of the following
  configurationRemove is not read.
\<close>

definition copyJointRemoveConfiguration ::
  "client_env \<Rightarrow> raft \<Rightarrow> raft_id \<Rightarrow> (raft_rv \<times> raft_configuration) option" where
  "copyJointRemoveConfiguration env r i =
     (if phase (configuration r) \<noteq> RAFT_CONF_JOINT then None
      else
        (case configurationGet (configuration r) i of
           None \<Rightarrow> None
         | Some server \<Rightarrow>
             Some (joint_to_normal env (configuration r)
                     (if RAFT_GROUP_NEW \<in> srv_group server then RAFT_GROUP_OLD
                      else RAFT_GROUP_NEW))))"

definition raft_remove ::
  "client_env \<Rightarrow> raft \<Rightarrow> request \<Rightarrow> raft_id \<Rightarrow> nat option \<Rightarrow>
   (raft_rv \<times> request \<times> raft) option" where
  "raft_remove env r req i cb =
     (let joint = (phase (configuration r) = RAFT_CONF_JOINT);
          req0 = req\<lparr>cb_on_match := False, match_id := 0\<rparr>
      in
      if can_change env r joint \<noteq> RV_OK then Some (can_change env r joint, req0, r)
      else if configurationGet (configuration r) i = None then Some (RAFT_BADID, req0, r)
      else
        (case (if phase (configuration r) = RAFT_CONF_JOINT then
                 (case copyJointRemoveConfiguration env r i of
                    None \<Rightarrow> None
                  | Some (rv, c) \<Rightarrow>
                      if rv \<noteq> RV_OK then Some (rv, c)
                      else Some (RV_OK, snd (configurationRemove env c i)))
               else if cl_configuration_copy_rv env \<noteq> RV_OK
               then Some (cl_configuration_copy_rv env, configuration r)
               else Some (configurationRemove env (configuration r) i))
         of
           None \<Rightarrow> None
         | Some (rv, c) \<Rightarrow>
             if rv \<noteq> RV_OK then Some (rv, req0, r)
             else
               let req1 = req0\<lparr>req_cb := cb, req_time := cl_time env\<rparr> in
               (case clientChangeConfiguration env r req1 False (NewConfiguration c) of
                  None \<Rightarrow> None
                | Some (rv1, req2, r1) \<Rightarrow>
                    if rv1 \<noteq> RV_OK then Some (rv1, req2, r1)
                    else if change (leader_state r1) \<noteq> None then None
                    else Some (RV_OK, req2,
                               r1\<lparr>leader_state := (leader_state r1)\<lparr>change := Some req2\<rparr>\<rparr>))))"

section \<open>Example states\<close>

definition ex_server :: "raft_id \<Rightarrow> raft_role \<Rightarrow> raft_server" where
  "ex_server i ro =
     \<lparr>srv_id = i, role = ro, role_new = ro, srv_group = {RAFT_GROUP_OLD}, pre_role = RAFT_UNKNOW\<rparr>"

definition ex_progress :: "raft_index \<Rightarrow> raft_index \<Rightarrow> progress_state \<Rightarrow> raft_progress" where
  "ex_progress nxt mtch st =
     \<lparr>next_index = nxt, match_index = mtch, snapshot_index = 0, last_send = 0,
      snapshot_last_send = 0, recent_recv = False, recent_recv_time = 0, pstate = st\<rparr>"

definition ex_entry :: "raft_term \<Rightarrow> entry_type \<Rightarrow> raft_entry" where
  "ex_entry t ty = \<lparr>e_term = t, e_type = ty, e_buf = []\<rparr>"

text \<open>
  Server 1 of the voters 1, 2, 3, a follower of server 2 in term 2 with an empty log.
\<close>

definition ex_node :: raft where
  "ex_node =
     \<lparr>r_id = 1, state = RAFT_FOLLOWER, r_role = RAFT_VOTER, current_term = 2, voted_for = 0,
      log = \<lparr>entries = [], offset = 0, snapshot_last_index = 0, snapshot_last_term = 0\<rparr>,
      configuration =
        \<lparr>servers = [ex_server 1 RAFT_VOTER, ex_server 2 RAFT_VOTER, ex_server 3 RAFT_VOTER],
         phase = RAFT_CONF_NORMAL\<rparr>,
      configuration_index = 0, configuration_uncommitted_index = 0,
      election_timeout = 1000, election_timer_start = 0,
      commit_index = 0, last_applied = 0, last_applying = 0, last_stored = 0,
      follower_state = \<lparr>current_leader_id = 2\<rparr>,
      leader_state = leader_state_reset,
      transfer = None, removed = False, last_append_time = 0, last_append_term = 0,
      snapshot_pending =
        \<lparr>snap_index = 0, snap_term = 0,
         snap_configuration = \<lparr>servers = [], phase = RAFT_CONF_NORMAL\<rparr>,
         snap_configuration_index = 0\<rparr>,
      snapshot_put_busy = False, events = []\<rparr>"

text \<open>
  Server 1 as the leader of term 2. Its log holds one entry, of term 1; servers 1 and
  2 store it, server 3 stores nothing; nothing is committed yet.
\<close>

definition ex_leader :: raft where
  "ex_leader =
     ex_node\<lparr>state := RAFT_LEADER,
       log := \<lparr>entries = [ex_entry 1 RAFT_COMMAND], offset = 0,
               snapshot_last_index = 0, snapshot_last_term = 0\<rparr>,
       last_stored := 1,
       leader_state := leader_state_reset
         \<lparr>progress := [ex_progress 2 1 PROGRESS__PIPELINE, ex_progress 2 1 PROGRESS__PIPELINE,
                       ex_progress 1 0 PROGRESS__PROBE]\<rparr>\<rparr>"

text \<open>
  A voter count for the examples: any number \<open>n\<close>, capped by the number of servers
  of the configuration. What the examples show for every \<open>n\<close> holds whichever servers
  configurationVoterCount counts as voters.
\<close>

definition ex_voter_count :: "nat \<Rightarrow> raft_configuration \<Rightarrow> nat" where
  "ex_voter_count n c = min n (length (servers c))"

text \<open>
  The example leader in the JOINT configuration that promoting server 5 to VOTER and
  removing server 4 gives: servers 1, 2, 3, 4 are the VOTERs of the OLD group; servers
  1, 2, 3, 5 are the VOTERs of the NEW group (5 is SPARE in the old configuration, 4
  is not in the NEW group). Entry 1 is committed; entry 2, of the current term, is the
  configuration change. Servers 1, 2 and 4 store entry 2; servers 3 and 5 store
  entry 1 only.
\<close>

definition ex_joint :: raft where
  "ex_joint =
     ex_leader\<lparr>
       log := \<lparr>entries = [ex_entry 1 RAFT_COMMAND, ex_entry 2 RAFT_CHANGE], offset = 0,
               snapshot_last_index = 0, snapshot_last_term = 0\<rparr>,
       configuration :=
        \<lparr>servers =
           [\<lparr>srv_id = 1, role = RAFT_VOTER, role_new = RAFT_VOTER,
             srv_group = {RAFT_GROUP_OLD, RAFT_GROUP_NEW}, pre_role = RAFT_UNKNOW\<rparr>,
            \<lparr>srv_id = 2, role = RAFT_VOTER, role_new = RAFT_VOTER,
             srv_group = {RAFT_GROUP_OLD, RAFT_GROUP_NEW}, pre_role = RAFT_UNKNOW\<rparr>,
            \<lparr>srv_id = 3, role = RAFT_VOTER, role_new = RAFT_VOTER,
             srv_group = {RAFT_GROUP_OLD, RAFT_GROUP_NEW}, pre_role = RAFT_UNKNOW\<rparr>,
            \<lparr>srv_id = 4, role = RAFT_VOTER, role_new = RAFT_VOTER,
             srv_group = {RAFT_GROUP_OLD}, pre_role = RAFT_UNKNOW\<rparr>,
            \<lparr>srv_id = 5, role = RAFT_SPARE, role_new = RAFT_VOTER,
             srv_group = {RAFT_GROUP_OLD, RAFT_GROUP_NEW}, pre_role = RAFT_UNKNOW\<rparr>],
         phase = RAFT_CONF_JOINT\<rparr>,
       configuration_uncommitted_index := 2,
       commit_index := 1,
       last_stored := 2,
       leader_state := leader_state_reset
         \<lparr>progress := [ex_progress 3 2 PROGRESS__PIPELINE, ex_progress 3 2 PROGRESS__PIPELINE,
                       ex_progress 2 1 PROGRESS__PIPELINE, ex_progress 3 2 PROGRESS__PIPELINE,
                       ex_progress 2 1 PROGRESS__PIPELINE]\<rparr>\<rparr>"

text \<open>
  Results from server 3 as they arrive: a success up to index 1, then a stale success
  that reports index 0, then a stale rejection of index 1.
\<close>

definition ex_results :: "(raft_time \<times> raft_append_entries_result) list" where
  "ex_results =
     [(5, \<lparr>aer_term = 2, aer_rejected = 0, aer_last_log_index = 1\<rparr>),
      (6, \<lparr>aer_term = 2, aer_rejected = 0, aer_last_log_index = 0\<rparr>),
      (7, \<lparr>aer_term = 2, aer_rejected = 1, aer_last_log_index = 5\<rparr>)]"

text \<open>
  The example leader after it has appended, at index 1, the configuration change that
  removes it: the configuration in force no longer lists server 1, the change is
  uncommitted, and the client's request (callback 7) is pending.
\<close>

definition ex_change :: request where
  "ex_change =
     \<lparr>req_type = RAFT_CHANGE, req_index = 1, req_time = 0, req_cb = Some 7,
      cb_on_match = False, match_id = 0\<rparr>"

definition ex_removed_leader :: raft where
  "ex_removed_leader =
     ex_leader\<lparr>log := \<lparr>entries = [ex_entry 2 RAFT_CHANGE], offset = 0,
                       snapshot_last_index = 0, snapshot_last_term = 0\<rparr>,
       configuration := \<lparr>servers = [ex_server 2 RAFT_VOTER, ex_server 3 RAFT_VOTER],
                         phase = RAFT_CONF_NORMAL\<rparr>,
       configuration_uncommitted_index := 1,
       commit_index := 1,
       leader_state := leader_state_reset
         \<lparr>progress := [ex_progress 2 1 PROGRESS__PIPELINE, ex_progress 2 1 PROGRESS__PIPELINE],
           change := Some ex_change\<rparr>\<rparr>"

text \<open>
  Collaborators for the RequestVote examples: the clock reads 500, the terms are
  compared without a term bump, electionVote grants, the allocation and the send
  succeed, and recvSetMeta records the write it is asked for.
\<close>

definition ex_vote_env :: vote_env where
  "ex_vote_env =
     \<lparr>time_now = 500,
      ensure_matching_terms = (\<lambda>r t. (RV_OK, recvCheckMatchingTerms r t, r)),
      election_vote = (\<lambda>r a. (RV_OK, True, r)),
      set_meta = (\<lambda>r i_d t granted t2 v. (RV_OK, r\<lparr>events := events r @ [EvSetMeta t2 v]\<rparr>)),
      malloc_ok = True,
      send_rv = RV_OK\<rparr>"

text \<open>
  A RequestVote of candidate 3 for term 2, with or without the disrupt_leader flag.
\<close>

definition ex_request_vote :: "bool \<Rightarrow> raft_request_vote" where
  "ex_request_vote disrupt =
     \<lparr>rv_term = 2, candidate_id = 3, rv_last_log_index = 0, rv_last_log_term = 0,
      pre_vote = False, disrupt_leader = disrupt\<rparr>"




text \<open>
  Collaborators for the client examples: the clock reads 5, every allocation and every
  I/O call succeeds, replicationProgress does nothing, a configuration encodes to the
  empty payload, and a change may go ahead at a leader with no transfer and no
  uncommitted configuration.
\<close>

definition ex_client_env :: client_env where
  "ex_client_env =
     \<lparr>cl_time = 5, cl_log_append_rv = RV_OK, cl_encode = (\<lambda>c. []),
      reg_enqueue_rv = RV_OK, cl_log_acquire_rv = RV_OK, cl_request_malloc_ok = True,
      cl_io_append_rv = RV_OK, replication_progress = (\<lambda>r i. (RV_OK, r)),
      progress_malloc_ok = True, fresh_progress = ex_progress 0 0 PROGRESS__PROBE,
      can_change = (\<lambda>r allow_joint.
         if state r \<noteq> RAFT_LEADER \<or> transfer r \<noteq> None then RAFT_NOTLEADER
         else if configuration_uncommitted_index r \<noteq> 0 then RAFT_CANTCHANGE
         else RV_OK),
      cl_configuration_copy_rv = RV_OK, configuration_add_malloc_ok = True,
      configuration_remove_malloc_ok = True,
      joint_to_normal = (\<lambda>c g. (RV_OK, c\<lparr>phase := RAFT_CONF_NORMAL\<rparr>))\<rparr>"

text \<open>
  A fresh change request.
\<close>

definition ex_request :: request where
  "ex_request =
     \<lparr>req_type = RAFT_CHANGE, req_index = 0, req_time = 0, req_cb = None,
      cb_on_match = False, match_id = 0\<rparr>"




section \<open>Facts about the progress array\<close>

lemmas ex_defs = ex_leader_def ex_node_def ex_server_def ex_progress_def ex_entry_def
  leader_state_reset_def

lemmas word_cmp = word_le_nat_alt word_less_nat_alt

lemma progressAt_progressSet:
  "i < length (progress (leader_state r)) \<Longrightarrow> progressAt (progressSet r i p) i = p"
  by (simp add: progressAt_def progressSet_def)

lemma progressSet_progressSet: "progressSet (progressSet r i p) i q = progressSet r i q"
  by (simp add: progressSet_def)

lemma length_progress_progressSet:
  "length (progress (leader_state (progressSet r i p))) = length (progress (leader_state r))"
  by (simp add: progressSet_def)

lemma progressSet_frame:
  "configuration (progressSet r i p) = configuration r"
  "state (progressSet r i p) = state r"
  "log (progressSet r i p) = log r"
  "commit_index (progressSet r i p) = commit_index r"
  by (simp_all add: progressSet_def)

lemma word_min_succ: "(a::64 word) < b \<Longrightarrow> min b (a + 1) = a + 1"
  by (simp add: inc_le min_absorb2)

text \<open>
  progressMaybeDecrement, state by state. In PIPELINE the accepted rejection is above
  \<open>match_index\<close>, so \<open>min rejected (match_index + 1)\<close> is \<open>match_index + 1\<close>, the value
  progressToProbe then writes.
\<close>

lemma progressMaybeDecrement_snapshot:
  assumes "i < length (servers (configuration r))"
      and "i < length (progress (leader_state r))"
      and "pstate (progressAt r i) = PROGRESS__SNAPSHOT"
  shows "progressMaybeDecrement r i rejected last_index =
         (if rejected = snapshot_index (progressAt r i)
          then Some (True, progressSet r i
                 ((progressAt r i)\<lparr>snapshot_index := 0, pstate := PROGRESS__PROBE\<rparr>))
          else Some (False, r))"
  using assms by (simp add: progressMaybeDecrement_def progressAbortSnapshot_def Let_def)

lemma progressMaybeDecrement_pipeline:
  assumes "i < length (servers (configuration r))"
      and "i < length (progress (leader_state r))"
      and s: "pstate (progressAt r i) = PROGRESS__PIPELINE"
  shows "progressMaybeDecrement r i rejected last_index =
         (if rejected \<le> match_index (progressAt r i)
          then Some (False, if last_index = 1
                            then progressSet r i
                                   (initProgress (progressAt r i) (logLastIndex (log r)))
                            else r)
          else Some (True, progressSet r i
                 ((progressAt r i)\<lparr>next_index := min rejected (match_index (progressAt r i) + 1),
                                    pstate := PROGRESS__PROBE\<rparr>)))"
proof (cases "rejected \<le> match_index (progressAt r i)")
  case True
  then show ?thesis using assms by (simp add: progressMaybeDecrement_def Let_def)
next
  case False
  then have "match_index (progressAt r i) < rejected" by simp
  then have m: "min rejected (match_index (progressAt r i) + 1) = match_index (progressAt r i) + 1"
    by (rule word_min_succ)
  show ?thesis
    using assms False m
    by (simp add: progressMaybeDecrement_def progressToProbe_def Let_def
          progressAt_progressSet progressSet_progressSet)
qed

lemma progressMaybeDecrement_probe:
  assumes "i < length (servers (configuration r))"
      and "i < length (progress (leader_state r))"
      and "pstate (progressAt r i) = PROGRESS__PROBE"
  shows "progressMaybeDecrement r i rejected last_index =
         (if rejected = next_index (progressAt r i) - 1
          then Some (True, progressSet r i
                 ((progressAt r i)\<lparr>next_index := min rejected (last_index + 1)\<rparr>))
          else Some (False, r))"
  using assms by (simp add: progressMaybeDecrement_def Let_def)

lemma progressMaybeUpdate_match:
  assumes "progressMaybeUpdate r i li = Some (b, r')"
  shows "match_index (progressAt r' i) = max (match_index (progressAt r i)) li \<and>
         (b \<longleftrightarrow> match_index (progressAt r i) < li) \<and>
         length (progress (leader_state r')) = length (progress (leader_state r)) \<and>
         configuration r' = configuration r \<and> state r' = state r \<and> log r' = log r"
proof -
  from assms have len: "i < length (progress (leader_state r))"
    by (simp add: progressMaybeUpdate_def split: if_splits)
  define p where "p = progressAt r i"
  define p1 where "p1 = (if match_index p < li then p\<lparr>match_index := li\<rparr> else p)"
  define p2 where "p2 = (if next_index p1 < li + 1 then p1\<lparr>next_index := li + 1\<rparr> else p1)"
  from assms len have "r' = progressSet r i p2 \<and> b = (match_index p < li)"
    by (auto simp: progressMaybeUpdate_def Let_def p_def p1_def p2_def split: if_splits)
  then have r': "r' = progressSet r i p2" and b: "b = (match_index p < li)" by simp_all
  have "match_index p2 = max (match_index p) li"
    by (auto simp: p2_def p1_def max_def)
  then show ?thesis
    using len b by (simp add: r' progressAt_progressSet length_progress_progressSet
        progressSet_frame p_def)
qed

lemma progressToProbe_match:
  assumes "progressToProbe r i = Some r'" and "i < length (progress (leader_state r))"
  shows "match_index (progressAt r' i) = match_index (progressAt r i) \<and>
         length (progress (leader_state r')) = length (progress (leader_state r)) \<and>
         configuration r' = configuration r \<and> state r' = state r \<and> log r' = log r"
  using assms
  by (auto simp: progressToProbe_def Let_def progressAt_progressSet length_progress_progressSet
        progressSet_frame split: if_splits)

lemma progressMaybeDecrement_match:
  assumes "progressMaybeDecrement r i rejected last_index = Some (b, r')"
  shows "match_index (progressAt r' i) =
           (if pstate (progressAt r i) = PROGRESS__PIPELINE \<and>
               rejected \<le> match_index (progressAt r i) \<and> last_index = 1
            then 0 else match_index (progressAt r i)) \<and>
         length (progress (leader_state r')) = length (progress (leader_state r)) \<and>
         configuration r' = configuration r \<and> state r' = state r \<and> log r' = log r"
proof -
  from assms have len: "i < length (progress (leader_state r))"
    and n: "i < length (servers (configuration r))"
    by (simp_all add: progressMaybeDecrement_def split: if_splits)
  show ?thesis
  proof (cases "pstate (progressAt r i)")
    case PROGRESS__PROBE
    with progressMaybeDecrement_probe [OF n len, of rejected last_index] assms show ?thesis
      by (auto simp: progressAt_progressSet len length_progress_progressSet
            progressSet_frame split: if_splits)
  next
    case PROGRESS__PIPELINE
    with progressMaybeDecrement_pipeline [OF n len, of rejected last_index] assms show ?thesis
      by (auto simp: progressAt_progressSet len length_progress_progressSet
            progressSet_frame initProgress_def split: if_splits)
  next
    case PROGRESS__SNAPSHOT
    with progressMaybeDecrement_snapshot [OF n len, of rejected last_index] assms show ?thesis
      by (auto simp: progressAt_progressSet len length_progress_progressSet
            progressSet_frame split: if_splits)
  qed
qed

lemma progressMarkRecentRecv_match:
  assumes "i < length (progress (leader_state r))"
  shows "match_index (progressAt (progressMarkRecentRecv r i now) i) = match_index (progressAt r i) \<and>
         pstate (progressAt (progressMarkRecentRecv r i now) i) = pstate (progressAt r i) \<and>
         length (progress (leader_state (progressMarkRecentRecv r i now))) = length (progress (leader_state r)) \<and>
         configuration (progressMarkRecentRecv r i now) = configuration r \<and>
         state (progressMarkRecentRecv r i now) = state r \<and>
         log (progressMarkRecentRecv r i now) = log r"
  using assms
  by (simp add: progressMarkRecentRecv_def progressAt_progressSet length_progress_progressSet
        progressSet_frame)

lemma progressToPipeline_match:
  assumes "i < length (progress (leader_state r))"
  shows "match_index (progressAt (progressToPipeline r i) i) = match_index (progressAt r i) \<and>
         length (progress (leader_state (progressToPipeline r i))) = length (progress (leader_state r)) \<and>
         configuration (progressToPipeline r i) = configuration r \<and>
         state (progressToPipeline r i) = state r \<and>
         log (progressToPipeline r i) = log r"
  using assms
  by (simp add: progressToPipeline_def progressAt_progressSet length_progress_progressSet
        progressSet_frame)

lemma replicationUpdateProgress_match:
  assumes ok: "replicationUpdateProgress r now i_d result = Some r'"
      and nostart: "\<not> (0 < aer_rejected result \<and> aer_last_log_index result = 1)"
      and i: "i = configurationIndexOf (configuration r) i_d"
  shows "match_index (progressAt r i) \<le> match_index (progressAt r' i) \<and>
         configuration r' = configuration r"
proof -
  from ok i have len: "i < length (progress (leader_state r))"
    by (simp add: replicationUpdateProgress_def Let_def split: if_splits)
  define r0 where "r0 = progressMarkRecentRecv r i now"
  note r0 = progressMarkRecentRecv_match [OF len, of now, folded r0_def]
  have len0: "i < length (progress (leader_state r0))" using r0 len by simp
  show ?thesis
  proof (cases "0 < aer_rejected result")
    case True
    with ok i len obtain b where
      d: "progressMaybeDecrement r0 i (aer_rejected result) (aer_last_log_index result) = Some (b, r')"
      by (auto simp: replicationUpdateProgress_def Let_def r0_def split: if_splits option.splits)
    from progressMaybeDecrement_match [OF d] nostart True r0 show ?thesis by simp
  next
    case False
    define li where "li = (if logLastIndex (log r0) < aer_last_log_index result
                            then logLastIndex (log r0) else aer_last_log_index result)"
    from False ok i len obtain updated r1 where
      u: "progressMaybeUpdate r0 i li = Some (updated, r1)"
      and rest: "(if \<not> updated then Some r1
               else
                 (case progressState r1 i of
                    PROGRESS__SNAPSHOT \<Rightarrow>
                      (case progressSnapshotDone r1 i of
                         None \<Rightarrow> None
                       | Some done \<Rightarrow> if done then progressToProbe r1 i else Some r1)
                  | PROGRESS__PROBE \<Rightarrow> Some (progressToPipeline r1 i)
                  | PROGRESS__PIPELINE \<Rightarrow> Some r1)) = Some r'"
      by (auto simp: replicationUpdateProgress_def Let_def r0_def li_def split: if_splits option.splits)
    note m = progressMaybeUpdate_match [OF u]
    have len1: "i < length (progress (leader_state r1))" using m len0 by simp
    have le1: "match_index (progressAt r i) \<le> match_index (progressAt r1 i)"
      using m r0 by simp
    have c1: "configuration r1 = configuration r" using m r0 by simp
    from rest have "match_index (progressAt r' i) = match_index (progressAt r1 i) \<and>
        configuration r' = configuration r1"
      using progressToPipeline_match [OF len1] progressToProbe_match [OF _ len1]
      by (auto split: if_splits progress_state.splits option.splits)
    with le1 c1 show ?thesis by simp
  qed
qed

lemma replicationUpdates_match:
  "replicationUpdates r i_d results = Some r' \<Longrightarrow>
   \<forall>x \<in> set results. \<not> (0 < aer_rejected (snd x) \<and> aer_last_log_index (snd x) = 1) \<Longrightarrow>
   match_index (progressAt r (configurationIndexOf (configuration r) i_d))
     \<le> match_index (progressAt r' (configurationIndexOf (configuration r) i_d)) \<and>
   configuration r' = configuration r"
proof (induction results arbitrary: r)
  case Nil
  then show ?case by simp
next
  case (Cons x results)
  obtain now result where x: "x = (now, result)" by (cases x)
  from Cons.prems(1) x obtain r1 where
    s1: "replicationUpdateProgress r now i_d result = Some r1"
    and s2: "replicationUpdates r1 i_d results = Some r'"
    by (auto split: option.splits)
  from Cons.prems(2) x have n1: "\<not> (0 < aer_rejected result \<and> aer_last_log_index result = 1)"
    by simp
  note a = replicationUpdateProgress_match [OF s1 n1 refl]
  from Cons.IH [OF s2] Cons.prems(2) have
    b: "match_index (progressAt r1 (configurationIndexOf (configuration r1) i_d))
     \<le> match_index (progressAt r' (configurationIndexOf (configuration r1) i_d)) \<and>
   configuration r' = configuration r1" by simp
  from a b show ?case by (auto simp: order_trans)
qed

lemmas upd_defs = replicationUpdateProgress_def configurationIndexOf_def progressAt_def
  progressSet_def progressMarkRecentRecv_def progressMaybeUpdate_def progressMaybeDecrement_def
  progressToPipeline_def progressToProbe_def progressState_def progressSnapshotDone_def
  logLastIndex_def initProgress_def Let_def

lemma ex_results_run:
  "map_option (\<lambda>r'. match_index (progressAt r' 2)) (replicationUpdates ex_leader 3 ex_results) = Some 1"
  by (simp add: ex_results_def ex_defs upd_defs word_cmp)

section \<open>Facts about the quorum count\<close>

lemma quorumVotes_eq:
  "length ss \<le> length ps \<Longrightarrow> quorumVotes ss ps index = Some (votesFor ss ps index)"
proof (induction ss arbitrary: ps)
  case Nil
  then show ?case by (simp add: votesFor_def)
next
  case (Cons s ss)
  then obtain p ps' where ps: "ps = p # ps'" by (cases ps) auto
  with Cons.prems have "length ss \<le> length ps'" by simp
  from Cons.IH [OF this] ps show ?case by (simp add: votesFor_def)
qed

lemma quorumVotes_roles:
  "map role ss' = map role ss \<Longrightarrow> quorumVotes ss' ps index = quorumVotes ss ps index"
proof (induction ss arbitrary: ss' ps)
  case Nil
  then show ?case by simp
next
  case (Cons s ss)
  then obtain t ts where ss': "ss' = t # ts" and rt: "role t = role s"
    and m: "map role ts = map role ss" by (cases ss') auto
  from Cons.IH [OF m] ss' rt show ?case by (simp split: list.splits)
qed

lemma replicationQuorum_eq:
  assumes "state r = RAFT_LEADER"
      and "logTermOf (log r) index \<le> current_term r"
      and "length (servers (configuration r)) \<le> length (progress (leader_state r))"
  shows "replicationQuorum voter_count r index =
     Some (if commit_index r < index \<and> logTermOf (log r) index \<noteq> 0 \<and>
              voter_count (configuration r) div 2
                < votesFor (servers (configuration r)) (progress (leader_state r)) index
           then r\<lparr>commit_index := min index (last_stored r)\<rparr> else r)"
  using assms quorumVotes_eq [OF assms(3), of index]
  by (simp add: replicationQuorum_def not_le)

lemmas log_defs = logTermOf_def logGet_def logHolds_def logLastIndex_def

section \<open>Facts about conversions and votes\<close>

lemma convertToFollower_frame:
  "state (convertToFollower r) = RAFT_FOLLOWER"
  "configuration_index (convertToFollower r) = configuration_index r"
  "configuration_uncommitted_index (convertToFollower r) = configuration_uncommitted_index r"
  "configuration (convertToFollower r) = configuration r"
  "r_id (convertToFollower r) = r_id r"
  "removed (convertToFollower r) = removed r"
  "commit_index (convertToFollower r) = commit_index r"
  "log (convertToFollower r) = log r"
  "events (convertToFollower r) =
     events r @ map (\<lambda>q. EvRequestCb q RAFT_NOTLEADER RAFT_FOLLOWER) (reg (leader_state r))"
  by (simp_all add: convertToFollower_def)

lemmas vote_defs = ex_vote_env_def ex_request_vote_def requestVoteProcess_def
  requestVoteProcessAsync_def requestVoteReply_def recvCheckMatchingTerms_def

section \<open>Facts about the follower's handling of AppendEntries\<close>

lemma logGet_logTruncate:
  "unat idx < unat t \<Longrightarrow> logGet (logTruncate l t) idx = logGet l idx"
  by (auto simp: logGet_def logHolds_def logTruncate_def)

lemma logTruncate_frame:
  "offset (logTruncate l t) = offset l"
  "snapshot_last_index (logTruncate l t) = snapshot_last_index l"
  "snapshot_last_term (logTruncate l t) = snapshot_last_term l"
  by (simp_all add: logTruncate_def)

lemma logTermOf_logTruncate:
  "unat idx < unat t \<Longrightarrow> logTermOf (logTruncate l t) idx = logTermOf l idx"
  by (auto simp: logTermOf_def logGet_logTruncate logTruncate_frame split: option.splits)













lemma word_max_succ_pred: "max (a::64 word) b + 1 - 1 = max a b"
  by simp













section \<open>Facts about the completion of a follower's write\<close>





section \<open>Facts about the client operations\<close>

lemma indexOf_find:
  "find (\<lambda>s. srv_id s = i) ss = Some server \<Longrightarrow>
   indexOf ss i < length ss \<and> ss ! indexOf ss i = server"
  by (induction ss) (auto split: if_splits)

lemma word_succ_unat:
  "unat (a::64 word) + n + 1 < 2 ^ 64 \<Longrightarrow> unat (a + of_nat n + 1) = unat a + n + 1"
  by (simp add: unat_word_ariths unat_of_nat take_bit_nat_eq_self)

lemma logTruncate_logAppend:
  assumes "unat (offset l) + length (entries l) + 1 < 2 ^ 64"
  shows "logTruncate (logAppend l t ty b) (logLastIndex l + 1) = l"
  using word_succ_unat [OF assms]
  by (simp add: logTruncate_def logAppend_def logLastIndex_def)

lemma logDiscard_logAppendCommands:
  assumes "unat (offset l) + length (entries l) + 1 < 2 ^ 64"
  shows "logDiscard (logAppendCommands l t bufs) (logLastIndex l + 1) = l"
  using word_succ_unat [OF assms]
  by (simp add: logDiscard_def logTruncate_def logAppendCommands_def logLastIndex_def)

lemma logGet_logAppend:
  assumes "unat (offset l) + length (entries l) + 1 < 2 ^ 64"
  shows "logGet (logAppend l t ty b) (logLastIndex l + 1) =
         Some \<lparr>e_term = t, e_type = ty, e_buf = b\<rparr>"
  using word_succ_unat [OF assms]
  by (simp add: logGet_def logHolds_def logAppend_def logLastIndex_def)

lemma appendLeader_failure:
  "appendLeader env r index = Some (rv, r') \<Longrightarrow> rv \<noteq> RV_OK \<Longrightarrow>
   log r' = log r \<and> leader_state r' = leader_state r \<and> configuration r' = configuration r"
  by (auto simp: appendLeader_def Let_def split: if_splits)

lemma replicationTrigger_failure:
  "replicationTrigger env r index = Some (rv, r') \<Longrightarrow> rv \<noteq> RV_OK \<Longrightarrow>
   log r' = log r \<and> leader_state r' = leader_state r \<and> configuration r' = configuration r"
  by (auto simp: replicationTrigger_def triggerAll_def dest: appendLeader_failure
      split: option.splits if_splits)

lemma requestRegDel_requestRegEnqueue:
  "\<forall>q\<in>set rg. req_index q \<noteq> index \<Longrightarrow> req_index q1 = index \<Longrightarrow>
   requestRegDel (requestRegEnqueue rg q1) index = rg"
  by (simp add: requestRegDel_def requestRegEnqueue_def)

text \<open>
  raft_apply and raft_barrier: a call refused for want of leadership returns NOTLEADER
  and leaves the node and the request as they were; a call that fails after the append
  leaves the log and the registry as they were before the call.
\<close>

lemma raft_apply_rejected:
  "bufs \<noteq> [] \<Longrightarrow>
   state r \<noteq> RAFT_LEADER \<or> transfer r \<noteq> None \<or> removed_from_cluster (leader_state r) \<Longrightarrow>
   raft_apply env r req bufs cb = Some (RAFT_NOTLEADER, req, r)"
  by (auto simp: raft_apply_def)

lemma raft_barrier_rejected:
  "state r \<noteq> RAFT_LEADER \<or> transfer r \<noteq> None \<Longrightarrow>
   raft_barrier env r req cb = Some (RAFT_NOTLEADER, req, r)"
  by (auto simp: raft_barrier_def)

lemma raft_apply_rollback:
  assumes "unat (offset (log r)) + length (entries (log r)) + 1 < 2 ^ 64"
    and "\<forall>q\<in>set (reg (leader_state r)). req_index q \<noteq> logLastIndex (log r) + 1"
    and "raft_apply env r req bufs cb = Some (rv, req', r')"
    and "rv \<noteq> RV_OK"
  shows "log r' = log r \<and> reg (leader_state r') = reg (leader_state r) \<and>
         configuration r' = configuration r"
  using assms(3,4) logDiscard_logAppendCommands [OF assms(1)]
    requestRegDel_requestRegEnqueue [OF assms(2)]
  by (auto simp: raft_apply_def Let_def split: if_splits option.splits
      dest!: replicationTrigger_failure)

lemma raft_barrier_rollback:
  assumes "unat (offset (log r)) + length (entries (log r)) + 1 < 2 ^ 64"
    and "\<forall>q\<in>set (reg (leader_state r)). req_index q \<noteq> logLastIndex (log r) + 1"
    and "raft_barrier env r req cb = Some (rv, req', r')"
    and "rv \<noteq> RV_OK"
  shows "log r' = log r \<and> reg (leader_state r') = reg (leader_state r) \<and>
         configuration r' = configuration r"
  using assms(3,4) logTruncate_logAppend [OF assms(1)]
    requestRegDel_requestRegEnqueue [OF assms(2)]
  by (auto simp: raft_barrier_def logDiscard_def Let_def split: if_splits option.splits
      dest!: replicationTrigger_failure)

text \<open>
  raft_assign, raft_add and raft_remove: a call refused by the role check, by
  membershipCanChangeConfiguration, or for an unknown or duplicate id leaves the node
  as it was.
\<close>

lemma raft_assign_rejected:
  "ro = RAFT_UNKNOW \<Longrightarrow> raft_assign env r req i ro cb = Some (RAFT_BADROLE, req, r)"
  "ro \<noteq> RAFT_UNKNOW \<Longrightarrow> can_change env r False \<noteq> RV_OK \<Longrightarrow>
   raft_assign env r req i ro cb = Some (can_change env r False, req, r)"
  "ro \<noteq> RAFT_UNKNOW \<Longrightarrow> can_change env r False = RV_OK \<Longrightarrow>
   configurationGet (configuration r) i = None \<Longrightarrow>
   raft_assign env r req i ro cb = Some (RAFT_NOTFOUND, req, r)"
  "ro \<noteq> RAFT_UNKNOW \<Longrightarrow> can_change env r False = RV_OK \<Longrightarrow>
   configurationGet (configuration r) i = Some server \<Longrightarrow> role server = ro \<Longrightarrow>
   raft_assign env r req i ro cb = Some (RAFT_BADROLE, req, r)"
  by (cases ro; simp add: raft_assign_def)+

lemma raft_add_rejected:
  "can_change env r False \<noteq> RV_OK \<Longrightarrow>
   \<exists>req'. raft_add env r req i cb = Some (can_change env r False, req', r)"
  "can_change env r False = RV_OK \<Longrightarrow> cl_configuration_copy_rv env = RV_OK \<Longrightarrow>
   configurationGet (configuration r) i \<noteq> None \<Longrightarrow>
   \<exists>req'. raft_add env r req i cb = Some (RAFT_DUPLICATEID, req', r)"
  by (auto simp: raft_add_def raft_configuration_add_def Let_def)

lemma raft_remove_rejected:
  "can_change env r (phase (configuration r) = RAFT_CONF_JOINT) \<noteq> RV_OK \<Longrightarrow>
   \<exists>req'. raft_remove env r req i cb =
     Some (can_change env r (phase (configuration r) = RAFT_CONF_JOINT), req', r)"
  "can_change env r (phase (configuration r) = RAFT_CONF_JOINT) = RV_OK \<Longrightarrow>
   configurationGet (configuration r) i = None \<Longrightarrow>
   \<exists>req'. raft_remove env r req i cb = Some (RAFT_BADID, req', r)"
  by (auto simp: raft_remove_def Let_def)

text \<open>
  clientChangeConfiguration after the append: when replicationTrigger fails the log is
  back to what it was; when the allocation of progressRebuildArray fails the call
  returns NOMEM and the CHANGE entry is still the last entry of the log.
\<close>

lemma clientChangeConfiguration_trigger_failure:
  assumes "unat (offset (log r)) + length (entries (log r)) + 1 < 2 ^ 64"
    and "progress_malloc_ok env"
    and "clientChangeConfiguration env r req registered arg = Some (rv, req', r')"
    and "rv \<noteq> RV_OK"
  shows "log r' = log r"
proof (cases "cl_log_append_rv env = RV_OK")
  case False
  with assms(3) show ?thesis by (simp add: clientChangeConfiguration_def Let_def)
next
  case True
  note tr = logTruncate_logAppend [OF assms(1)]
  have pr: "\<And>x c rv1 r1. progressRebuildArray env x c = Some (rv1, r1) \<Longrightarrow>
              rv1 = RV_OK \<and> log r1 = log x"
    using assms(2) by (auto simp: progressRebuildArray_def Let_def split: if_splits)
  show ?thesis
    using assms(3,4) True tr
    by (cases arg)
       (auto simp: clientChangeConfiguration_def logAppendConfiguration_def Let_def
          split: if_splits option.splits dest!: replicationTrigger_failure pr)
qed

lemma clientChangeConfiguration_rebuild_failure:
  assumes "unat (offset (log r)) + length (entries (log r)) + 1 < 2 ^ 64"
    and "cl_log_append_rv env = RV_OK"
    and "\<not> progress_malloc_ok env"
  shows "\<exists>req' r'. clientChangeConfiguration env r req registered arg =
           Some (RAFT_NOMEM, req', r') \<and>
         log r' = logAppend (log r) (current_term r) RAFT_CHANGE
                    (cl_encode env (case arg of OwnConfiguration \<Rightarrow> configuration r
                                    | NewConfiguration c \<Rightarrow> c)) \<and>
         logLastIndex (log r') = logLastIndex (log r) + 1"
  using assms(2,3) logGet_logAppend [OF assms(1)]
  by (simp add: clientChangeConfiguration_def logAppendConfiguration_def Let_def
      progressRebuildArray_def logLastIndex_def logAppend_def)

lemmas client_defs = raft_assign_def clientChangeConfiguration_def progressRebuildArray_def
  replicationTrigger_def appendLeader_def triggerAll_def triggerAllStep_def
  logAppendConfiguration_def logAppend_def logAcquire_def configurationGet_def
  configurationIndexOf_def progressMatchIndex_def progressAt_def ex_client_env_def
  ex_request_def

section \<open>Facts about the quorum examples\<close>

lemma ex_voter_count_le: "ex_voter_count n c \<le> length (servers c)"
  by (simp add: ex_voter_count_def)

lemma ex_leader_votes:
  "votesFor (servers (configuration ex_leader)) (progress (leader_state ex_leader)) 1 = 2"
  "length (servers (configuration ex_leader)) = 3"
  by (simp_all add: ex_defs votesFor_def word_cmp)

lemma ex_leader_half: "ex_voter_count n (configuration ex_leader) div 2 < 2"
  using ex_voter_count_le [of n "configuration ex_leader"] ex_leader_votes(2) by arith

lemma ex_joint_votes:
  "votesFor (servers (configuration ex_joint)) (progress (leader_state ex_joint)) 2 = 3"
  "length (servers (configuration ex_joint)) = 5"
  by (simp_all add: ex_joint_def ex_defs votesFor_def word_cmp)

lemma ex_joint_half:
  "ex_voter_count n (configuration ex_joint) div 2 < 3"
  "ex_voter_count n (configuration ex_joint) < 6"
  using ex_voter_count_le [of n "configuration ex_joint"] ex_joint_votes(2) by arith+

lemma ex_leader_quorum:
  "replicationQuorum (ex_voter_count n) ex_leader 1 = Some (ex_leader\<lparr>commit_index := 1\<rparr>)"
  using replicationQuorum_eq [of ex_leader 1 "ex_voter_count n"] ex_leader_half [of n]
  by (simp add: ex_leader_votes) (simp add: ex_defs log_defs word_cmp)

lemma ex_joint_quorum:
  "replicationQuorum (ex_voter_count n) ex_joint 2 = Some (ex_joint\<lparr>commit_index := 2\<rparr>)"
  using replicationQuorum_eq [of ex_joint 2 "ex_voter_count n"] ex_joint_half(1) [of n]
  by (simp add: ex_joint_votes) (simp add: ex_joint_def ex_defs log_defs word_cmp)

section \<open>The claims\<close>

text \<open>
  C1, as the code has it: for a leader whose assertions hold, replicationQuorum sets
  \<open>commit_index\<close> to \<open>min index last_stored\<close> exactly when the index is above
  \<open>commit_index\<close>, the log has an entry there (term not 0) and the servers whose role
  is VOTER and whose \<open>match_index\<close> has reached the index are more than half of the
  voter count; otherwise the state is unchanged. The term of the entry is only asserted
  to be at most \<open>current_term\<close>: the outcome is the same for every current term from
  the entry's term upwards, so an entry of a prior term that a majority stores is
  committed directly.
\<close>

theorem C1_replicationQuorum:
  assumes "state r = RAFT_LEADER"
      and "logTermOf (log r) index \<le> current_term r"
      and "length (servers (configuration r)) \<le> length (progress (leader_state r))"
  shows "replicationQuorum voter_count r index =
     Some (if commit_index r < index \<and> logTermOf (log r) index \<noteq> 0 \<and>
              voter_count (configuration r) div 2
                < votesFor (servers (configuration r)) (progress (leader_state r)) index
           then r\<lparr>commit_index := min index (last_stored r)\<rparr> else r) \<and>
    (\<forall>t. logTermOf (log r) index \<le> t \<longrightarrow>
       replicationQuorum voter_count (r\<lparr>current_term := t\<rparr>) index =
         map_option (\<lambda>r'. r'\<lparr>current_term := t\<rparr>) (replicationQuorum voter_count r index))"
proof
  show "replicationQuorum voter_count r index =
     Some (if commit_index r < index \<and> logTermOf (log r) index \<noteq> 0 \<and>
              voter_count (configuration r) div 2
                < votesFor (servers (configuration r)) (progress (leader_state r)) index
           then r\<lparr>commit_index := min index (last_stored r)\<rparr> else r)"
    using assms by (rule replicationQuorum_eq)
next
  show "\<forall>t. logTermOf (log r) index \<le> t \<longrightarrow>
       replicationQuorum voter_count (r\<lparr>current_term := t\<rparr>) index =
         map_option (\<lambda>r'. r'\<lparr>current_term := t\<rparr>) (replicationQuorum voter_count r index)"
  proof (intro allI impI)
    fix t assume t: "logTermOf (log r) index \<le> t"
    have "replicationQuorum voter_count (r\<lparr>current_term := t\<rparr>) index =
     Some (if commit_index r < index \<and> logTermOf (log r) index \<noteq> 0 \<and>
              voter_count (configuration r) div 2
                < votesFor (servers (configuration r)) (progress (leader_state r)) index
           then r\<lparr>current_term := t, commit_index := min index (last_stored r)\<rparr>
           else r\<lparr>current_term := t\<rparr>)"
      using replicationQuorum_eq [of "r\<lparr>current_term := t\<rparr>" index voter_count] assms t by simp
    then show "replicationQuorum voter_count (r\<lparr>current_term := t\<rparr>) index =
         map_option (\<lambda>r'. r'\<lparr>current_term := t\<rparr>) (replicationQuorum voter_count r index)"
      using replicationQuorum_eq [OF assms, of voter_count] by simp
  qed
qed

theorem C1_witness:
  "state ex_leader = RAFT_LEADER \<and>
   logTermOf (log ex_leader) 1 = 1 \<and> current_term ex_leader = 2 \<and>
   (\<forall>n. replicationQuorum (ex_voter_count n) ex_leader 1 =
          Some (ex_leader\<lparr>commit_index := 1\<rparr>))"
proof -
  have "replicationQuorum (ex_voter_count n) ex_leader 1 = Some (ex_leader\<lparr>commit_index := 1\<rparr>)"
    for n
    using C1_replicationQuorum [where r = ex_leader and index = 1
        and voter_count = "ex_voter_count n"] ex_leader_half [of n]
    by (simp add: ex_leader_votes) (simp add: ex_defs log_defs word_cmp)
  then show ?thesis by (simp add: ex_defs log_defs word_cmp)
qed

text \<open>
  C1 as the claim states it fails: the example leader is in term 2, its entry 1 is of
  term 1 and is stored by two of the three voters; replicationQuorum commits it,
  whatever the voter count of the three servers.
\<close>

theorem C1_counterexample:
  "logTermOf (log ex_leader) 1 \<noteq> current_term ex_leader \<and>
   commit_index ex_leader = 0 \<and>
   (\<forall>n. map_option commit_index (replicationQuorum (ex_voter_count n) ex_leader 1) = Some 1)"
  by (simp add: ex_leader_quorum) (simp add: ex_defs log_defs word_cmp)

text \<open>
  C2, as the code has it: in every phase replicationQuorum makes one count, over the
  whole server array, of the servers whose \<open>role\<close> is VOTER and whose \<open>match_index\<close>
  has reached the index, and compares it with half of the voter count of the
  configuration. The index is committed exactly when it is above \<open>commit_index\<close>, the
  log has an entry there, and that one count is more than half of the voter count;
  otherwise the state is unchanged. The groups of the servers, their new roles and the
  phase enter only through the voter count: two configurations with the same roles,
  position by position, and the same voter count give the same commit index.
\<close>

theorem C2_replicationQuorum_groups:
  assumes "state r = RAFT_LEADER"
      and "logTermOf (log r) index \<le> current_term r"
      and "length (servers (configuration r)) \<le> length (progress (leader_state r))"
  shows
   "(\<forall>c'. map role (servers c') = map role (servers (configuration r)) \<and>
          voter_count c' = voter_count (configuration r) \<longrightarrow>
       map_option commit_index (replicationQuorum voter_count (r\<lparr>configuration := c'\<rparr>) index) =
       map_option commit_index (replicationQuorum voter_count r index)) \<and>
    (commit_index r < index \<and> logTermOf (log r) index \<noteq> 0 \<and>
     voter_count (configuration r)
       < 2 * votesFor (servers (configuration r)) (progress (leader_state r)) index \<longrightarrow>
       replicationQuorum voter_count r index =
         Some (r\<lparr>commit_index := min index (last_stored r)\<rparr>)) \<and>
    (\<not> (commit_index r < index \<and> logTermOf (log r) index \<noteq> 0 \<and>
        voter_count (configuration r)
          < 2 * votesFor (servers (configuration r)) (progress (leader_state r)) index) \<longrightarrow>
       replicationQuorum voter_count r index = Some r)"
proof -
  have half: "\<And>n v::nat. (n div 2 < v) = (n < 2 * v)" by arith
  have 1: "map_option commit_index (replicationQuorum voter_count (r\<lparr>configuration := c'\<rparr>) index) =
       map_option commit_index (replicationQuorum voter_count r index)"
    if c': "map role (servers c') = map role (servers (configuration r)) \<and>
            voter_count c' = voter_count (configuration r)" for c'
  proof -
    have q: "quorumVotes (servers c') (progress (leader_state r)) index =
        quorumVotes (servers (configuration r)) (progress (leader_state r)) index"
      using c' by (intro quorumVotes_roles) simp
    show ?thesis
      using q c' by (simp add: replicationQuorum_def split: option.splits)
  qed
  have 2: "replicationQuorum voter_count r index =
        Some (r\<lparr>commit_index := min index (last_stored r)\<rparr>)"
    if "commit_index r < index \<and> logTermOf (log r) index \<noteq> 0 \<and>
     voter_count (configuration r)
       < 2 * votesFor (servers (configuration r)) (progress (leader_state r)) index"
    using that replicationQuorum_eq [OF assms, of voter_count] by (simp add: half)
  have 3: "replicationQuorum voter_count r index = Some r"
    if "\<not> (commit_index r < index \<and> logTermOf (log r) index \<noteq> 0 \<and>
        voter_count (configuration r)
          < 2 * votesFor (servers (configuration r)) (progress (leader_state r)) index)"
    using that replicationQuorum_eq [OF assms, of voter_count] by (auto simp: half)
  from 1 2 3 show ?thesis by blast
qed

theorem C2_witness:
  "state ex_joint = RAFT_LEADER \<and> phase (configuration ex_joint) = RAFT_CONF_JOINT \<and>
   commit_index ex_joint = 1 \<and> logTermOf (log ex_joint) 2 = current_term ex_joint \<and>
   votesFor (servers (configuration ex_joint)) (progress (leader_state ex_joint)) 2 = 3 \<and>
   (\<forall>n. replicationQuorum (ex_voter_count n) ex_joint 2 = Some (ex_joint\<lparr>commit_index := 2\<rparr>))"
proof -
  have "replicationQuorum (ex_voter_count n) ex_joint 2 = Some (ex_joint\<lparr>commit_index := 2\<rparr>)"
    for n
    using C2_replicationQuorum_groups [where r = ex_joint and index = 2
        and voter_count = "ex_voter_count n"] ex_joint_half(2) [of n]
    by (simp add: ex_joint_votes) (simp add: ex_joint_def ex_defs log_defs word_cmp)
  then show ?thesis
    by (simp add: ex_joint_votes) (simp add: ex_joint_def ex_defs log_defs word_cmp)
qed

text \<open>
  C2 as the claim states it fails: in the JOINT example the OLD group has its majority
  at index 2 (servers 1, 2 and 4 of its voters 1, 2, 3, 4) and the NEW group has not
  (servers 1 and 2 of its voters 1, 2, 3, 5); replicationQuorum advances the commit
  index to 2, whatever the voter count of the five servers.
\<close>

theorem C2_counterexample:
  "phase (configuration ex_joint) = RAFT_CONF_JOINT \<and>
   spec_groupQuorum ex_joint RAFT_GROUP_OLD 2 \<and>
   \<not> spec_groupQuorum ex_joint RAFT_GROUP_NEW 2 \<and>
   commit_index ex_joint = 1 \<and>
   (\<forall>n. map_option commit_index (replicationQuorum (ex_voter_count n) ex_joint 2) = Some 2)"
  by (simp add: ex_joint_quorum)
     (simp add: ex_joint_def ex_defs spec_groupQuorum_def spec_isVoter_def word_cmp)




text \<open>
  C4, as the code has it: progressMaybeDecrement filters stale rejections per state.
  In SNAPSHOT it accepts (returns true and moves to PROBE) exactly when
  \<open>rejected = snapshot_index\<close>. In PIPELINE it ignores (returns false) exactly when
  \<open>rejected \<le> match_index\<close>, and otherwise sets
  \<open>next_index = min rejected (match_index + 1)\<close> and moves to PROBE. In PROBE it
  ignores unless \<open>rejected = next_index - 1\<close>, and otherwise sets
  \<open>next_index = min rejected (last_index + 1)\<close>. An ignored rejection leaves the node
  state unchanged, except in PIPELINE when the reported \<open>last_index\<close> is 1: there the
  peer's progress entry is initialised anew (match_index 0, next_index the leader's
  last index + 1, state PROBE).
\<close>

theorem C4_progressMaybeDecrement:
  assumes "i < length (servers (configuration r))"
      and "i < length (progress (leader_state r))"
      and "p = progressAt r i"
  shows
   "(pstate p = PROGRESS__SNAPSHOT \<longrightarrow>
       progressMaybeDecrement r i rejected last_index =
         (if rejected = snapshot_index p
          then Some (True, progressSet r i (p\<lparr>snapshot_index := 0, pstate := PROGRESS__PROBE\<rparr>))
          else Some (False, r))) \<and>
    (pstate p = PROGRESS__PIPELINE \<longrightarrow>
       progressMaybeDecrement r i rejected last_index =
         (if rejected \<le> match_index p
          then Some (False, if last_index = 1
                            then progressSet r i (initProgress p (logLastIndex (log r))) else r)
          else Some (True, progressSet r i
                 (p\<lparr>next_index := min rejected (match_index p + 1), pstate := PROGRESS__PROBE\<rparr>)))) \<and>
    (pstate p = PROGRESS__PROBE \<longrightarrow>
       progressMaybeDecrement r i rejected last_index =
         (if rejected = next_index p - 1
          then Some (True, progressSet r i (p\<lparr>next_index := min rejected (last_index + 1)\<rparr>))
          else Some (False, r))) \<and>
    (\<forall>r'. progressMaybeDecrement r i rejected last_index = Some (False, r') \<and>
          \<not> (pstate p = PROGRESS__PIPELINE \<and> last_index = 1) \<longrightarrow> r' = r)"
proof (intro conjI impI allI)
  assume "pstate p = PROGRESS__SNAPSHOT"
  then show "progressMaybeDecrement r i rejected last_index =
         (if rejected = snapshot_index p
          then Some (True, progressSet r i (p\<lparr>snapshot_index := 0, pstate := PROGRESS__PROBE\<rparr>))
          else Some (False, r))"
    using assms by (simp add: progressMaybeDecrement_snapshot)
next
  assume "pstate p = PROGRESS__PIPELINE"
  then show "progressMaybeDecrement r i rejected last_index =
         (if rejected \<le> match_index p
          then Some (False, if last_index = 1
                            then progressSet r i (initProgress p (logLastIndex (log r))) else r)
          else Some (True, progressSet r i
                 (p\<lparr>next_index := min rejected (match_index p + 1), pstate := PROGRESS__PROBE\<rparr>)))"
    using assms by (simp add: progressMaybeDecrement_pipeline)
next
  assume "pstate p = PROGRESS__PROBE"
  then show "progressMaybeDecrement r i rejected last_index =
         (if rejected = next_index p - 1
          then Some (True, progressSet r i (p\<lparr>next_index := min rejected (last_index + 1)\<rparr>))
          else Some (False, r))"
    using assms by (simp add: progressMaybeDecrement_probe)
next
  fix r'
  assume a: "progressMaybeDecrement r i rejected last_index = Some (False, r') \<and>
          \<not> (pstate p = PROGRESS__PIPELINE \<and> last_index = 1)"
  show "r' = r"
  proof (cases "pstate p")
    case PROGRESS__PROBE
    with a assms progressMaybeDecrement_probe [of i r rejected last_index] show ?thesis
      by (auto split: if_splits)
  next
    case PROGRESS__PIPELINE
    with a assms progressMaybeDecrement_pipeline [of i r rejected last_index] show ?thesis
      by (auto split: if_splits)
  next
    case PROGRESS__SNAPSHOT
    with a assms progressMaybeDecrement_snapshot [of i r rejected last_index] show ?thesis
      by (auto split: if_splits)
  qed
qed

theorem C4_witness:
  "1 < length (servers (configuration ex_leader)) \<and>
   1 < length (progress (leader_state ex_leader)) \<and>
   pstate (progressAt ex_leader 1) = PROGRESS__PIPELINE \<and>
   match_index (progressAt ex_leader 1) = 1 \<and>
   progressMaybeDecrement ex_leader 1 5 7 =
     Some (True, progressSet ex_leader 1
        ((progressAt ex_leader 1)\<lparr>next_index := 2, pstate := PROGRESS__PROBE\<rparr>))"
  using C4_progressMaybeDecrement [of 1 ex_leader "progressAt ex_leader 1" 5 7]
  by (simp add: ex_defs progressAt_def word_cmp)

text \<open>
  C4 as the claim states it fails: peer 2 of the example leader is in PIPELINE with
  \<open>match_index = 1\<close>; the rejection of index 1 that reports \<open>last_index = 1\<close> is
  ignored (the function returns false), yet the peer's progress entry is not what it
  was.
\<close>

theorem C4_counterexample:
  "pstate (progressAt ex_leader 1) = PROGRESS__PIPELINE \<and>
   map_option fst (progressMaybeDecrement ex_leader 1 1 1) = Some False \<and>
   map_option (\<lambda>x. progressAt (snd x) 1) (progressMaybeDecrement ex_leader 1 1 1)
     \<noteq> Some (progressAt ex_leader 1)"
  by (simp add: progressMaybeDecrement_def ex_defs progressAt_def progressSet_def
      initProgress_def logLastIndex_def Let_def)

text \<open>
  C5, as the code has it: progressMaybeUpdate never lowers \<open>match_index\<close> and returns
  true exactly when it raised it. progressMaybeDecrement leaves \<open>match_index\<close> as it
  is in every branch but one: the ignored PIPELINE rejection that reports
  \<open>last_index = 1\<close> resets it to 0. So across any run of results from a peer, in any
  order, none of which is a rejection reporting last_log_index 1, the peer's
  \<open>match_index\<close> does not decrease.
\<close>

theorem C5_match_index:
  "(progressMaybeUpdate r i last_index = Some (b, r1) \<longrightarrow>
      match_index (progressAt r i) \<le> match_index (progressAt r1 i) \<and>
      (b \<longleftrightarrow> match_index (progressAt r i) < match_index (progressAt r1 i))) \<and>
   (progressMaybeDecrement r i rejected lli = Some (b', r2) \<longrightarrow>
      match_index (progressAt r2 i) =
        (if pstate (progressAt r i) = PROGRESS__PIPELINE \<and>
            rejected \<le> match_index (progressAt r i) \<and> lli = 1
         then 0 else match_index (progressAt r i))) \<and>
   (replicationUpdates r i_d results = Some r3 \<and>
    (\<forall>x \<in> set results. \<not> (0 < aer_rejected (snd x) \<and> aer_last_log_index (snd x) = 1)) \<longrightarrow>
      match_index (progressAt r (configurationIndexOf (configuration r) i_d))
        \<le> match_index (progressAt r3 (configurationIndexOf (configuration r) i_d)))"
proof -
  have 1: "match_index (progressAt r i) \<le> match_index (progressAt r1 i) \<and>
      (b \<longleftrightarrow> match_index (progressAt r i) < match_index (progressAt r1 i))"
    if u: "progressMaybeUpdate r i last_index = Some (b, r1)"
    using progressMaybeUpdate_match [OF u] by (auto simp: max_def)
  have 2: "match_index (progressAt r2 i) =
        (if pstate (progressAt r i) = PROGRESS__PIPELINE \<and>
            rejected \<le> match_index (progressAt r i) \<and> lli = 1
         then 0 else match_index (progressAt r i))"
    if d: "progressMaybeDecrement r i rejected lli = Some (b', r2)"
    using progressMaybeDecrement_match [OF d] by simp
  have 3: "match_index (progressAt r (configurationIndexOf (configuration r) i_d))
        \<le> match_index (progressAt r3 (configurationIndexOf (configuration r) i_d))"
    if "replicationUpdates r i_d results = Some r3 \<and>
    (\<forall>x \<in> set results. \<not> (0 < aer_rejected (snd x) \<and> aer_last_log_index (snd x) = 1))"
    using that replicationUpdates_match [of r i_d results r3] by simp
  from 1 2 3 show ?thesis by blast
qed

theorem C5_witness:
  "match_index (progressAt ex_leader 2) = 0 \<and>
   (\<exists>r3. replicationUpdates ex_leader 3 ex_results = Some r3 \<and>
      match_index (progressAt ex_leader 2) \<le> match_index (progressAt r3 2) \<and>
      match_index (progressAt r3 2) = 1)"
proof -
  from ex_results_run obtain r3 where
    r3: "replicationUpdates ex_leader 3 ex_results = Some r3"
    and m: "match_index (progressAt r3 2) = 1"
    by (cases "replicationUpdates ex_leader 3 ex_results") auto
  have idx: "configurationIndexOf (configuration ex_leader) 3 = 2"
    by (simp add: configurationIndexOf_def ex_defs)
  have ok: "\<forall>x \<in> set ex_results. \<not> (0 < aer_rejected (snd x) \<and> aer_last_log_index (snd x) = 1)"
    by (simp add: ex_results_def word_cmp)
  from C5_match_index [of ex_leader _ _ _ _ _ _ _ _ 3 ex_results r3] r3 ok idx
  have "match_index (progressAt ex_leader 2) \<le> match_index (progressAt r3 2)" by simp
  moreover have "match_index (progressAt ex_leader 2) = 0"
    by (simp add: ex_defs progressAt_def)
  ultimately show ?thesis using r3 m by simp
qed

text \<open>
  C5 as the claim states it fails: peer 2 of the example leader has \<open>match_index = 1\<close>
  in PIPELINE; a rejection of index 1 reporting \<open>last_log_index = 1\<close> lowers it to 0,
  in progressMaybeDecrement and so in the handling of the result.
\<close>

theorem C5_counterexample:
  "match_index (progressAt ex_leader 1) = 1 \<and>
   map_option (\<lambda>x. match_index (progressAt (snd x) 1)) (progressMaybeDecrement ex_leader 1 1 1)
     = Some 0 \<and>
   map_option (\<lambda>r'. match_index (progressAt r' 1))
     (replicationUpdates ex_leader 2
        [(5, \<lparr>aer_term = 2, aer_rejected = 1, aer_last_log_index = 1\<rparr>)]) = Some 0"
  by (simp add: ex_defs upd_defs word_cmp)




text \<open>
  C7: applying a committed CHANGE entry at index \<open>index > 0\<close> resets
  \<open>configuration_uncommitted_index\<close> to 0 if it equals the index (and leaves it
  otherwise), and sets \<open>configuration_index\<close> to the index. A node that is no longer
  in the configuration is marked removed; if it was the leader it is converted to
  FOLLOWER first, and the pending change callback fires last, with status 0, on a node
  that is already a follower. A node still in the configuration keeps its state.
\<close>

theorem C7_applyChange:
  assumes "0 < index"
  shows "\<exists>r'. applyChange r index = Some r' \<and>
     configuration_uncommitted_index r' =
       (if configuration_uncommitted_index r = index then 0
        else configuration_uncommitted_index r) \<and>
     configuration_index r' = index \<and>
     (configurationGet (configuration r) (r_id r) = None \<longrightarrow>
        removed r' \<and>
        (state r = RAFT_LEADER \<longrightarrow>
           state r' = RAFT_FOLLOWER \<and>
           (\<forall>q. change (leader_state r) = Some q \<and> req_cb q \<noteq> None \<longrightarrow>
              events r' =
                events r @
                map (\<lambda>q'. EvRequestCb q' RAFT_NOTLEADER RAFT_FOLLOWER) (reg (leader_state r)) @
                [EvChangeCb q RV_OK RAFT_FOLLOWER])) \<and>
        (state r \<noteq> RAFT_LEADER \<longrightarrow> state r' = state r \<and> events r' = events r)) \<and>
     (configurationGet (configuration r) (r_id r) \<noteq> None \<longrightarrow>
        removed r' = removed r \<and> state r' = state r)"
  using assms
  by (auto simp: applyChange_def Let_def convertToFollower_frame split: option.splits)

theorem C7_witness:
  "configurationGet (configuration ex_removed_leader) (r_id ex_removed_leader) = None \<and>
   state ex_removed_leader = RAFT_LEADER \<and>
   configuration_uncommitted_index ex_removed_leader = 1 \<and>
   (\<exists>r'. applyChange ex_removed_leader 1 = Some r' \<and>
      configuration_uncommitted_index r' = 0 \<and> configuration_index r' = 1 \<and>
      removed r' \<and> state r' = RAFT_FOLLOWER \<and>
      events r' = [EvChangeCb ex_change RV_OK RAFT_FOLLOWER])"
  using C7_applyChange [of 1 ex_removed_leader]
  by (auto simp: ex_removed_leader_def ex_change_def ex_defs configurationGet_def word_cmp)

text \<open>
  C8, where the code departs from it. Let raft_assign be asked, at a node where
  membershipCanChangeConfiguration lets the change go ahead and no change is pending,
  to make a listed server a STANDBY or a SPARE, so that the change is submitted at
  once. If the append of the CHANGE entry succeeds and the allocation of
  progressRebuildArray then fails, the call returns NOMEM and the appended entry is
  still the last entry of the log; the configuration and the registry are as before,
  and the request is still stored in \<open>leader_state.change\<close>.
\<close>

theorem C8_raft_assign_failure:
  assumes "unat (offset (log r)) + length (entries (log r)) + 1 < 2 ^ 64"
    and "ro = RAFT_STANDBY \<or> ro = RAFT_SPARE"
    and "can_change env r False = RV_OK"
    and "configurationGet (configuration r) i = Some server"
    and "role server \<noteq> ro"
    and "change (leader_state r) = None"
    and "cl_log_append_rv env = RV_OK"
    and "\<not> progress_malloc_ok env"
  shows "\<exists>req' r'.
           raft_assign env r req i ro cb = Some (RAFT_NOMEM, req', r') \<and>
           logLastIndex (log r') = logLastIndex (log r) + 1 \<and>
           (\<exists>b. logGet (log r') (logLastIndex (log r) + 1) =
                  Some \<lparr>e_term = current_term r, e_type = RAFT_CHANGE, e_buf = b\<rparr>) \<and>
           configuration r' = configuration r \<and>
           reg (leader_state r') = reg (leader_state r) \<and>
           change (leader_state r') = Some req'"
proof -
  let ?k = "configurationIndexOf (configuration r) i"
  let ?ss = "servers (configuration r)"
  from assms(4) have k: "?k < length ?ss" and at: "?ss ! ?k = server"
    using indexOf_find [of i ?ss server]
    by (simp_all add: configurationGet_def configurationIndexOf_def)
  let ?req1 = "req\<lparr>req_cb := cb, req_time := cl_time env\<rparr>"
  let ?r2 = "r\<lparr>leader_state := (leader_state r)\<lparr>change := Some ?req1\<rparr>,
                configuration := (configuration r)
                  \<lparr>servers := ?ss[?k := (?ss ! ?k)\<lparr>role := ro\<rparr>]\<rparr>\<rparr>"
  have l2: "unat (offset (log ?r2)) + length (entries (log ?r2)) + 1 < 2 ^ 64"
    using assms(1) by simp
  from clientChangeConfiguration_rebuild_failure [OF l2 assms(7,8),
      of ?req1 True OwnConfiguration]
  obtain req' r' where
    cc: "clientChangeConfiguration env ?r2 ?req1 True OwnConfiguration =
           Some (RAFT_NOMEM, req', r')"
    and lg: "log r' = logAppend (log r) (current_term r) RAFT_CHANGE
                        (cl_encode env (configuration ?r2))"
    and li: "logLastIndex (log r') = logLastIndex (log r) + 1"
    by auto
  from cc assms(7,8) have fr:
    "configuration r' = configuration ?r2" "req' = ?req1\<lparr>req_index := logLastIndex (log r) + 1\<rparr>"
    "leader_state r' = (leader_state r)\<lparr>change := Some req'\<rparr>"
    by (auto simp: clientChangeConfiguration_def progressRebuildArray_def Let_def
        split: option.splits if_splits)
  let ?r'' = "r'\<lparr>configuration := (configuration r')
                 \<lparr>servers := (servers (configuration r'))
                    [?k := (servers (configuration r') ! ?k)\<lparr>role := role (?ss ! ?k)\<rparr>]\<rparr>\<rparr>"
  have run: "raft_assign env r req i ro cb = Some (RAFT_NOMEM, req', ?r'')"
    using assms(2,3,4,5,6) k at cc
    by (auto simp: raft_assign_def Let_def)
  have conf: "configuration ?r'' = configuration r"
    using k by (simp add: fr(1) list_update_same_conv)
  have get: "logGet (log ?r'') (logLastIndex (log r) + 1) =
        Some \<lparr>e_term = current_term r, e_type = RAFT_CHANGE,
              e_buf = cl_encode env (configuration ?r2)\<rparr>"
    using logGet_logAppend [OF assms(1)] by (simp add: lg)
  show ?thesis
    using run conf get li fr(3) by auto
qed

text \<open>
  C8 at the example leader, which holds one entry: making server 3 a STANDBY with a
  failing allocation returns NOMEM with the CHANGE entry at index 2. When instead the
  disk write fails, the other error path of clientChangeConfiguration has truncated the
  log back to its one entry.
\<close>

theorem C8_witness:
  "(case raft_assign (ex_client_env\<lparr>progress_malloc_ok := False\<rparr>) ex_leader ex_request 3
           RAFT_STANDBY (Some 7) of
      None \<Rightarrow> False
    | Some (rv, req', r') \<Rightarrow>
        rv = RAFT_NOMEM \<and>
        entries (log ex_leader) = [ex_entry 1 RAFT_COMMAND] \<and>
        entries (log r') =
          [ex_entry 1 RAFT_COMMAND, \<lparr>e_term = 2, e_type = RAFT_CHANGE, e_buf = []\<rparr>] \<and>
        logLastIndex (log r') = 2 \<and>
        configuration r' = configuration ex_leader \<and>
        change (leader_state ex_leader) = None \<and>
        change (leader_state r') = Some req' \<and>
        req' = ex_request\<lparr>req_cb := Some 7, req_time := 5, req_index := 2\<rparr>) \<and>
   (case raft_assign (ex_client_env\<lparr>cl_io_append_rv := RAFT_IOERR\<rparr>) ex_leader ex_request 3
           RAFT_STANDBY (Some 7) of
      None \<Rightarrow> False
    | Some (rv, req', r') \<Rightarrow>
        rv = RAFT_IOERR \<and>
        entries (log r') = [ex_entry 1 RAFT_COMMAND] \<and>
        logLastIndex (log r') = 1 \<and>
        configuration r' = configuration ex_leader \<and>
        change (leader_state r') = Some req')"
  using C8_raft_assign_failure [where r = ex_leader and env = "ex_client_env\<lparr>progress_malloc_ok := False\<rparr>"
      and ro = RAFT_STANDBY and i = 3 and server = "ex_server 3 RAFT_VOTER"
      and req = ex_request and cb = "Some 7"]
  by (simp add: client_defs ex_defs log_defs logTruncate_def word_cmp Let_def)

text \<open>
  C9: a node with a live leader (it is the leader, or it is a follower with a known
  leader whose election timer started at most \<open>election_timeout\<close> ago) answers a
  RequestVote without the disrupt_leader flag with \<open>vote_granted = false\<close> and nothing
  else happens: no term reconciliation, no call of electionVote, no state change. This
  holds for both compiled variants of recvRequestVote. With the flag set the request
  takes the same path as on a node without a leader (term check, electionVote,
  reply), and a vote that electionVote grants is granted.
\<close>

theorem C9_recvRequestVote:
  assumes "0 < i_d"
      and "state r = RAFT_LEADER \<or>
           (state r = RAFT_FOLLOWER \<and> current_leader_id (follower_state r) \<noteq> 0 \<and>
            time_now env - election_timer_start r \<le> election_timeout r)"
  shows
   "(\<not> disrupt_leader args \<longrightarrow>
       recvRequestVote env r i_d args =
         (if malloc_ok env
          then Some (send_rv env,
                 r\<lparr>events := events r @
                     [EvSendRequestVoteResult i_d (current_term r) False None]\<rparr>)
          else Some (RAFT_NOMEM, r)) \<and>
       recvRequestVoteAsync env r i_d args =
         (if malloc_ok env
          then Some (send_rv env,
                 r\<lparr>events := events r @
                     [EvSendRequestVoteResult i_d (current_term r) False (Some (pre_vote args))]\<rparr>)
          else Some (RAFT_NOMEM, r))) \<and>
    (disrupt_leader args \<longrightarrow>
       recvRequestVote env r i_d args = requestVoteProcess env r i_d args \<and>
       recvRequestVoteAsync env r i_d args = requestVoteProcessAsync env r i_d args) \<and>
    (disrupt_leader args \<and> pre_vote args \<and> current_term r \<le> rv_term args \<and>
     election_vote env r args = (RV_OK, True, r2) \<and> malloc_ok env \<longrightarrow>
       recvRequestVote env r i_d args =
         Some (send_rv env,
               r2\<lparr>events := events r2 @
                    [EvSendRequestVoteResult i_d (current_term r2) True None]\<rparr>) \<and>
       recvRequestVoteAsync env r i_d args =
         Some (send_rv env,
               r2\<lparr>events := events r2 @
                    [EvSendRequestVoteResult i_d (current_term r) True (Some True)]\<rparr>))"
proof -
  have 1: "recvRequestVote env r i_d args =
         (if malloc_ok env
          then Some (send_rv env,
                 r\<lparr>events := events r @
                     [EvSendRequestVoteResult i_d (current_term r) False None]\<rparr>)
          else Some (RAFT_NOMEM, r)) \<and>
       recvRequestVoteAsync env r i_d args =
         (if malloc_ok env
          then Some (send_rv env,
                 r\<lparr>events := events r @
                     [EvSendRequestVoteResult i_d (current_term r) False (Some (pre_vote args))]\<rparr>)
          else Some (RAFT_NOMEM, r))" if "\<not> disrupt_leader args"
    using that assms
    by (auto simp: recvRequestVote_def recvRequestVoteAsync_def requestVoteReply_def Let_def)
  have 2: "recvRequestVote env r i_d args = requestVoteProcess env r i_d args \<and>
       recvRequestVoteAsync env r i_d args = requestVoteProcessAsync env r i_d args"
    if "disrupt_leader args"
    using that assms by (simp add: recvRequestVote_def recvRequestVoteAsync_def Let_def)
  have 3: "recvRequestVote env r i_d args =
         Some (send_rv env,
               r2\<lparr>events := events r2 @
                    [EvSendRequestVoteResult i_d (current_term r2) True None]\<rparr>) \<and>
       recvRequestVoteAsync env r i_d args =
         Some (send_rv env,
               r2\<lparr>events := events r2 @
                    [EvSendRequestVoteResult i_d (current_term r) True (Some True)]\<rparr>)"
    if h: "disrupt_leader args \<and> pre_vote args \<and> current_term r \<le> rv_term args \<and>
     election_vote env r args = (RV_OK, True, r2) \<and> malloc_ok env"
  proof -
    from h have m: "0 \<le> recvCheckMatchingTerms r (rv_term args)"
      by (auto simp: recvCheckMatchingTerms_def)
    from h 2 m show ?thesis
      by (simp add: requestVoteProcess_def requestVoteProcessAsync_def requestVoteReply_def
            Let_def not_less)
  qed
  from 1 2 3 show ?thesis by blast
qed

theorem C9_witness:
  "state ex_leader = RAFT_LEADER \<and>
   state ex_node = RAFT_FOLLOWER \<and> current_leader_id (follower_state ex_node) \<noteq> 0 \<and>
   time_now ex_vote_env - election_timer_start ex_node \<le> election_timeout ex_node \<and>
   recvRequestVote ex_vote_env ex_node 3 (ex_request_vote False) =
     Some (RV_OK, ex_node\<lparr>events := [EvSendRequestVoteResult 3 2 False None]\<rparr>) \<and>
   recvRequestVoteAsync ex_vote_env ex_leader 3 (ex_request_vote False) =
     Some (RV_OK, ex_leader\<lparr>events := [EvSendRequestVoteResult 3 2 False (Some False)]\<rparr>) \<and>
   recvRequestVote ex_vote_env ex_node 3 (ex_request_vote True) =
     Some (RV_OK, ex_node\<lparr>events := [EvSendRequestVoteResult 3 2 True None]\<rparr>) \<and>
   recvRequestVoteAsync ex_vote_env ex_leader 3 (ex_request_vote True) =
     Some (RV_OK, ex_leader\<lparr>election_timer_start := 500, events := [EvSetMeta 2 3]\<rparr>)"
proof -
  have pos: "0 < (3::64 word)" by simp
  have l1: "state ex_leader = RAFT_LEADER" by (simp add: ex_defs)
  have l2: "state ex_node = RAFT_FOLLOWER \<and> current_leader_id (follower_state ex_node) \<noteq> 0 \<and>
      time_now ex_vote_env - election_timer_start ex_node \<le> election_timeout ex_node"
    by (simp add: ex_defs ex_vote_env_def word_cmp)
  note n = C9_recvRequestVote [where env = ex_vote_env and r = ex_node, OF pos disjI2 [OF l2]]
  note l = C9_recvRequestVote [where env = ex_vote_env and r = ex_leader, OF pos disjI1 [OF l1]]
  have f: "\<not> disrupt_leader (ex_request_vote False)" "disrupt_leader (ex_request_vote True)"
    by (simp_all add: ex_request_vote_def)
  from n [where args = "ex_request_vote False"] f(1)
  have a0: "recvRequestVote ex_vote_env ex_node 3 (ex_request_vote False) =
         (if malloc_ok ex_vote_env
          then Some (send_rv ex_vote_env,
                 ex_node\<lparr>events := events ex_node @
                     [EvSendRequestVoteResult 3 (current_term ex_node) False None]\<rparr>)
          else Some (RAFT_NOMEM, ex_node))" by blast
  from l [where args = "ex_request_vote False"] f(1)
  have b0: "recvRequestVoteAsync ex_vote_env ex_leader 3 (ex_request_vote False) =
         (if malloc_ok ex_vote_env
          then Some (send_rv ex_vote_env,
                 ex_leader\<lparr>events := events ex_leader @
                     [EvSendRequestVoteResult 3 (current_term ex_leader) False
                        (Some (pre_vote (ex_request_vote False)))]\<rparr>)
          else Some (RAFT_NOMEM, ex_leader))" by blast
  from n [where args = "ex_request_vote True"] f(2)
  have c0: "recvRequestVote ex_vote_env ex_node 3 (ex_request_vote True) =
      requestVoteProcess ex_vote_env ex_node 3 (ex_request_vote True)" by blast
  from l [where args = "ex_request_vote True"] f(2)
  have d0: "recvRequestVoteAsync ex_vote_env ex_leader 3 (ex_request_vote True) =
      requestVoteProcessAsync ex_vote_env ex_leader 3 (ex_request_vote True)" by blast
  have a: "recvRequestVote ex_vote_env ex_node 3 (ex_request_vote False) =
     Some (RV_OK, ex_node\<lparr>events := [EvSendRequestVoteResult 3 2 False None]\<rparr>)"
    unfolding a0 by (simp add: ex_defs vote_defs)
  have b: "recvRequestVoteAsync ex_vote_env ex_leader 3 (ex_request_vote False) =
     Some (RV_OK, ex_leader\<lparr>events := [EvSendRequestVoteResult 3 2 False (Some False)]\<rparr>)"
    unfolding b0 by (simp add: ex_defs vote_defs)
  have c: "recvRequestVote ex_vote_env ex_node 3 (ex_request_vote True) =
     Some (RV_OK, ex_node\<lparr>events := [EvSendRequestVoteResult 3 2 True None]\<rparr>)"
    unfolding c0 by (simp add: ex_defs vote_defs word_cmp)
  have d: "recvRequestVoteAsync ex_vote_env ex_leader 3 (ex_request_vote True) =
     Some (RV_OK, ex_leader\<lparr>election_timer_start := 500, events := [EvSetMeta 2 3]\<rparr>)"
    unfolding d0 by (simp add: ex_defs vote_defs word_cmp)
  from l1 l2 a b c d show ?thesis by simp
qed

text \<open>
  C10: raft_leader reports 0 for a CANDIDATE or UNAVAILABLE node and for a LEADER with a
  leadership transfer in progress; a LEADER with no pending transfer reports its own
  id, and a FOLLOWER reports its recorded current leader's id.
\<close>

theorem C10_raft_leader:
  "(state r = RAFT_CANDIDATE \<or> state r = RAFT_UNAVAILABLE \<longrightarrow> raft_leader r = 0) \<and>
   (state r = RAFT_LEADER \<and> transfer r \<noteq> None \<longrightarrow> raft_leader r = 0) \<and>
   (state r = RAFT_LEADER \<and> transfer r = None \<longrightarrow> raft_leader r = r_id r) \<and>
   (state r = RAFT_FOLLOWER \<longrightarrow> raft_leader r = current_leader_id (follower_state r)) \<and>
   (raft_leader r = r_id r \<and> r_id r \<noteq> 0 \<and> state r \<noteq> RAFT_FOLLOWER
      \<longrightarrow> state r = RAFT_LEADER \<and> transfer r = None)"
  by (cases "state r") (auto simp: raft_leader_def)

theorem C10_witness:
  "state ex_leader = RAFT_LEADER \<and> transfer ex_leader = None \<and>
   raft_leader ex_leader = 1 \<and>
   state ex_node = RAFT_FOLLOWER \<and> raft_leader ex_node = 2"
  using C10_raft_leader [of ex_leader] C10_raft_leader [of ex_node]
  by (simp add: ex_defs)

end
